theory Spec2Isabelle
  imports Main
begin

section \<open>Cursor move operations\<close>

text \<open>
  A shallow embedding of the class \<open>MoveOperations\<close> (first document of
  \<^verbatim>\<open>src/unnamed/part_000\<close>): the functions that compute the next state of one text
  cursor for the directional commands. JavaScript numbers are integers here (\<open>int\<close>), a
  \<open>number | null\<close> is an \<open>int option\<close>, line contents are \<open>string\<close>s that the operations
  only hand on to their collaborators. The second document of that file is an earlier
  revision of the same class and is not embedded. The queries of the line model are total
  functions: what an implementation does on a line number outside the buffer is not part
  of this development.
\<close>

subsection \<open>Positions, ranges and selections\<close>

record Position =
  lineNumber :: int
  column :: int

record Range =
  startLineNumber :: int
  startColumn :: int
  endLineNumber :: int
  endColumn :: int

record Selection = Range +
  selectionStartLineNumber :: int
  selectionStartColumn :: int
  positionLineNumber :: int
  positionColumn :: int

datatype SelectionStartKind = Simple | Word | Line

datatype PositionAffinity =
  LeftAffinity | RightAffinity | NoneAffinity | LeftOfInjectedText | RightOfInjectedText

datatype Direction = DirectionLeft | DirectionRight | DirectionNearest

text \<open>The class \<open>CursorPosition\<close> of the source: the outcome of a vertical motion.\<close>

record CursorPosition = Position +
  leftoverVisibleColumns :: int
  columnHint :: "int option"

text \<open>
  Modelled from the spec: \<open>Position.delta(undefined, deltaColumn)\<close> of \<open>core/position\<close>,
  which is not among the sources: the candidate position that many columns to the left
  or right of the position, on the same line.
\<close>

definition Position_delta :: "Position \<Rightarrow> int \<Rightarrow> Position" where
  "Position_delta p deltaColumn = \<lparr> lineNumber = lineNumber p, column = column p + deltaColumn \<rparr>"

text \<open>
  Modelled from the spec: the order of positions and the emptiness of a range
  (\<open>core/position\<close>, \<open>core/range\<close>, not among the sources): a range is an ordered pair of
  positions, empty when its two ends coincide.
\<close>

definition isBefore :: "Position \<Rightarrow> Position \<Rightarrow> bool" where
  "isBefore a b \<longleftrightarrow>
     lineNumber a < lineNumber b \<or> (lineNumber a = lineNumber b \<and> column a < column b)"

definition isBeforeOrEqual :: "Position \<Rightarrow> Position \<Rightarrow> bool" where
  "isBeforeOrEqual a b \<longleftrightarrow>
     lineNumber a < lineNumber b \<or> (lineNumber a = lineNumber b \<and> column a \<le> column b)"

definition Range_isEmpty :: "'a Range_scheme \<Rightarrow> bool" where
  "Range_isEmpty r \<longleftrightarrow> startLineNumber r = endLineNumber r \<and> startColumn r = endColumn r"

definition getStartPosition :: "'a Range_scheme \<Rightarrow> Position" where
  "getStartPosition r = \<lparr> lineNumber = startLineNumber r, column = startColumn r \<rparr>"

definition getEndPosition :: "'a Range_scheme \<Rightarrow> Position" where
  "getEndPosition r = \<lparr> lineNumber = endLineNumber r, column = endColumn r \<rparr>"

definition collapsedRange :: "int \<Rightarrow> int \<Rightarrow> Range" where
  "collapsedRange l c =
     \<lparr> startLineNumber = l, startColumn = c, endLineNumber = l, endColumn = c \<rparr>"

definition Selection_fromPositions :: "Position \<Rightarrow> Position \<Rightarrow> Selection" where
  "Selection_fromPositions anchor active =
     (if isBeforeOrEqual anchor active
      then \<lparr> startLineNumber = lineNumber anchor, startColumn = column anchor,
             endLineNumber = lineNumber active, endColumn = column active,
             selectionStartLineNumber = lineNumber anchor, selectionStartColumn = column anchor,
             positionLineNumber = lineNumber active, positionColumn = column active \<rparr>
      else \<lparr> startLineNumber = lineNumber active, startColumn = column active,
             endLineNumber = lineNumber anchor, endColumn = column anchor,
             selectionStartLineNumber = lineNumber anchor, selectionStartColumn = column anchor,
             positionLineNumber = lineNumber active, positionColumn = column active \<rparr>)"

subsection \<open>The cursor state\<close>

text \<open>
  The six fields are the arguments of \<open>new SingleCursorState(...)\<close> as the source calls
  it in \<open>translateDown\<close> and \<open>translateUp\<close>. The class itself (\<open>cursorCommon\<close>) is not
  among the sources; its methods below are modelled from the spec.
\<close>

record SingleCursorState =
  selectionStart :: Range
  selectionStartKind :: SelectionStartKind
  selectionStartLeftoverVisibleColumns :: int
  position :: Position
  leftoverVisibleColumns :: int
  columnHint :: "int option"

text \<open>
  Modelled from the spec: \<open>cursor.selection\<close>, the span between the selection-start end
  and the active position, both ends tracked independently: the anchor is the start of
  the selection-start range unless the active position lies at or before it and the
  range is not empty, in which case it is the range's end.
\<close>

definition selection :: "SingleCursorState \<Rightarrow> Selection" where
  "selection cursor =
     (if Range_isEmpty (selectionStart cursor)
         \<or> \<not> isBeforeOrEqual (position cursor) (getStartPosition (selectionStart cursor))
      then Selection_fromPositions (getStartPosition (selectionStart cursor)) (position cursor)
      else Selection_fromPositions (getEndPosition (selectionStart cursor)) (position cursor))"

text \<open>
  Modelled from the spec: \<open>cursor.hasSelection(virtualSpace)\<close>: the cursor owns a
  non-empty selection; with virtual space the two ends are compared together with the
  leftover visible columns recorded for them.
\<close>

definition hasSelection :: "SingleCursorState \<Rightarrow> bool \<Rightarrow> bool" where
  "hasSelection cursor virtualSpace \<longleftrightarrow>
     \<not> Range_isEmpty (selection cursor) \<or> \<not> Range_isEmpty (selectionStart cursor)
     \<or> (virtualSpace
         \<and> SingleCursorState.leftoverVisibleColumns cursor
             \<noteq> selectionStartLeftoverVisibleColumns cursor)"

text \<open>
  Modelled from the spec: \<open>cursor.move(inSelectionMode, lineNumber, column,
  leftoverVisibleColumns, columnHint)\<close>: a fresh state at the given position; extending
  the selection keeps the selection-start end, otherwise the selection collapses onto
  the new position and both ends record the given leftover (the state that the earlier
  revision of \<open>moveLeft\<close> and \<open>moveRight\<close> in the same file builds by hand).
\<close>

definition move ::
  "SingleCursorState \<Rightarrow> bool \<Rightarrow> int \<Rightarrow> int \<Rightarrow> int \<Rightarrow> int option \<Rightarrow> SingleCursorState" where
  "move cursor inSelectionMode l c leftover hint =
     (if inSelectionMode
      then \<lparr> selectionStart = selectionStart cursor,
             selectionStartKind = selectionStartKind cursor,
             selectionStartLeftoverVisibleColumns = selectionStartLeftoverVisibleColumns cursor,
             position = \<lparr> lineNumber = l, column = c \<rparr>,
             leftoverVisibleColumns = leftover,
             columnHint = hint \<rparr>
      else \<lparr> selectionStart = collapsedRange l c,
             selectionStartKind = Simple,
             selectionStartLeftoverVisibleColumns = leftover,
             position = \<lparr> lineNumber = l, column = c \<rparr>,
             leftoverVisibleColumns = leftover,
             columnHint = hint \<rparr>)"

text \<open>
  Modelled from the spec: \<open>cursor.virtualSpacePosition()\<close>: the cursor's virtual
  position, the leftover visible columns added to the column of the active position.
\<close>

definition virtualSpacePosition :: "SingleCursorState \<Rightarrow> Position" where
  "virtualSpacePosition cursor =
     Position_delta (position cursor) (SingleCursorState.leftoverVisibleColumns cursor)"

text \<open>
  Modelled from the spec: \<open>cursor.leftmostPosition()\<close> and \<open>cursor.rightmostPosition()\<close>:
  the leftmost and the rightmost edge of the selection, each with the leftover visible
  columns recorded for that edge.
\<close>

definition activeIsLeftmost :: "SingleCursorState \<Rightarrow> bool" where
  "activeIsLeftmost cursor \<longleftrightarrow>
     (let anchor = \<lparr> lineNumber = selectionStartLineNumber (selection cursor),
                      column = selectionStartColumn (selection cursor) \<rparr>
      in isBefore (position cursor) anchor
         \<or> (position cursor = anchor
            \<and> SingleCursorState.leftoverVisibleColumns cursor
                \<le> selectionStartLeftoverVisibleColumns cursor))"

definition leftmostPosition :: "SingleCursorState \<Rightarrow> Position \<times> int" where
  "leftmostPosition cursor =
     (if activeIsLeftmost cursor
      then (position cursor, SingleCursorState.leftoverVisibleColumns cursor)
      else (\<lparr> lineNumber = selectionStartLineNumber (selection cursor),
               column = selectionStartColumn (selection cursor) \<rparr>,
            selectionStartLeftoverVisibleColumns cursor))"

definition rightmostPosition :: "SingleCursorState \<Rightarrow> Position \<times> int" where
  "rightmostPosition cursor =
     (if activeIsLeftmost cursor
      then (\<lparr> lineNumber = selectionStartLineNumber (selection cursor),
               column = selectionStartColumn (selection cursor) \<rparr>,
            selectionStartLeftoverVisibleColumns cursor)
      else (position cursor, SingleCursorState.leftoverVisibleColumns cursor))"

subsection \<open>Collaborators\<close>

text \<open>
  The interface \<open>ICursorSimpleModel\<close>: the line model is an argument of every
  operation, so it is a record of its queries.
\<close>

record ICursorSimpleModel =
  getLineCount :: int
  getLineContent :: "int \<Rightarrow> string"
  getLineMinColumn :: "int \<Rightarrow> int"
  getLineMaxColumn :: "int \<Rightarrow> int"
  getLineIndentColumn :: "int \<Rightarrow> int"
  getLineFirstNonWhitespaceColumn :: "int \<Rightarrow> int"
  normalizePosition :: "Position \<Rightarrow> PositionAffinity \<Rightarrow> Position"

text \<open>
  The configuration, with its method \<open>columnFromVisibleColumn(model, lineNumber,
  visibleColumn)\<close> as a field.
\<close>

record CursorConfiguration =
  tabSize :: int
  indentSize :: int
  stickyTabStops :: bool
  virtualSpace :: bool
  columnFromVisibleColumn :: "ICursorSimpleModel \<Rightarrow> int \<Rightarrow> int \<Rightarrow> int"

text \<open>
  The functions imported from other modules (\<open>strings.prevCharLength\<close>,
  \<open>strings.nextCharLength\<close>, \<open>AtomicTabMoveOperations.atomicPosition\<close>,
  \<open>CursorColumns.visibleColumnFromColumn\<close>) are parameters of the operations.
\<close>

record Collaborators =
  prevCharLength :: "string \<Rightarrow> int \<Rightarrow> int"
  nextCharLength :: "string \<Rightarrow> int \<Rightarrow> int"
  atomicPosition :: "string \<Rightarrow> int \<Rightarrow> int \<Rightarrow> Direction \<Rightarrow> int"
  visibleColumnFromColumn :: "string \<Rightarrow> int \<Rightarrow> int \<Rightarrow> int"

text \<open>
  Modelled from the spec: \<open>Constants.MAX_SAFE_SMALL_INTEGER\<close> of \<open>base/common/uint\<close>
  (not among the sources), the very large constant of the sticky end of line: \<open>1 << 30\<close>.
\<close>

definition MAX_SAFE_SMALL_INTEGER :: int where
  "MAX_SAFE_SMALL_INTEGER = 1073741824"

subsection \<open>Horizontal motion\<close>

definition leftPosition :: "Collaborators \<Rightarrow> ICursorSimpleModel \<Rightarrow> Position \<Rightarrow> Position" where
  "leftPosition ext model pos =
     (if column pos > getLineMinColumn model (lineNumber pos)
      then Position_delta pos
             (- prevCharLength ext (getLineContent model (lineNumber pos)) (column pos - 1))
      else if lineNumber pos > 1
      then (let newLineNumber = lineNumber pos - 1
            in \<lparr> lineNumber = newLineNumber, column = getLineMaxColumn model newLineNumber \<rparr>)
      else pos)"

definition leftPositionAtomicSoftTabs ::
  "Collaborators \<Rightarrow> ICursorSimpleModel \<Rightarrow> Position \<Rightarrow> int \<Rightarrow> Position" where
  "leftPositionAtomicSoftTabs ext model pos tabSize' =
     (if column pos \<le> getLineIndentColumn model (lineNumber pos)
      then (let minColumn = getLineMinColumn model (lineNumber pos);
                lineContent = getLineContent model (lineNumber pos);
                newPosition = atomicPosition ext lineContent (column pos - 1) tabSize' DirectionLeft
            in if newPosition \<noteq> - 1 \<and> newPosition + 1 \<ge> minColumn
               then \<lparr> lineNumber = lineNumber pos, column = newPosition + 1 \<rparr>
               else leftPosition ext model pos)
      else leftPosition ext model pos)"

definition left ::
  "Collaborators \<Rightarrow> CursorConfiguration \<Rightarrow> ICursorSimpleModel \<Rightarrow> Position \<Rightarrow> Position" where
  "left ext config model pos =
     (if stickyTabStops config
      then leftPositionAtomicSoftTabs ext model pos (tabSize config)
      else leftPosition ext model pos)"

definition clipRange :: "int \<Rightarrow> int \<Rightarrow> int \<Rightarrow> int" where
  "clipRange v lo hi = (if v < lo then lo else if v > hi then hi else v)"

definition clipPositionColumn :: "Position \<Rightarrow> ICursorSimpleModel \<Rightarrow> Position" where
  "clipPositionColumn pos model =
     \<lparr> lineNumber = lineNumber pos,
       column = clipRange (column pos) (getLineMinColumn model (lineNumber pos))
                  (getLineMaxColumn model (lineNumber pos)) \<rparr>"

definition moveLeftWithVirtualSpace ::
  "Collaborators \<Rightarrow> CursorConfiguration \<Rightarrow> ICursorSimpleModel \<Rightarrow> SingleCursorState
     \<Rightarrow> bool \<Rightarrow> int \<Rightarrow> SingleCursorState" where
  "moveLeftWithVirtualSpace ext config model cursor inSelectionMode noOfColumns =
     (if hasSelection cursor True \<and> \<not> inSelectionMode
      then (let p = leftmostPosition cursor
            in move cursor inSelectionMode (lineNumber (fst p)) (column (fst p)) (snd p) None)
      else (let pos = Position_delta (virtualSpacePosition cursor) (- (noOfColumns - 1));
                clippedPos = clipPositionColumn pos model;
                leftover = max 0 (column pos - column clippedPos);
                normalizedPos = normalizePosition model clippedPos LeftAffinity
            in if leftover > 0
               then move cursor inSelectionMode (lineNumber normalizedPos)
                      (column normalizedPos) (leftover - 1) None
               else if column normalizedPos > getLineMinColumn model (lineNumber normalizedPos)
               then (let p = left ext config model normalizedPos
                     in move cursor inSelectionMode (lineNumber p) (column p) leftover None)
               else move cursor inSelectionMode (lineNumber normalizedPos)
                      (column normalizedPos) leftover None))"

definition moveLeftWithoutVirtualSapce ::
  "Collaborators \<Rightarrow> CursorConfiguration \<Rightarrow> ICursorSimpleModel \<Rightarrow> SingleCursorState
     \<Rightarrow> bool \<Rightarrow> int \<Rightarrow> SingleCursorState" where
  "moveLeftWithoutVirtualSapce ext config model cursor inSelectionMode noOfColumns =
     (if hasSelection cursor False \<and> \<not> inSelectionMode
      then move cursor inSelectionMode (startLineNumber (selection cursor))
             (startColumn (selection cursor)) 0 None
      else (let pos = Position_delta (position cursor) (- (noOfColumns - 1));
                normalizedPos =
                  normalizePosition model (clipPositionColumn pos model) LeftAffinity;
                p = left ext config model normalizedPos
            in move cursor inSelectionMode (lineNumber p) (column p) 0 None))"

definition moveLeft ::
  "Collaborators \<Rightarrow> CursorConfiguration \<Rightarrow> ICursorSimpleModel \<Rightarrow> SingleCursorState
     \<Rightarrow> bool \<Rightarrow> int \<Rightarrow> SingleCursorState" where
  "moveLeft ext config model cursor inSelectionMode noOfColumns =
     (if virtualSpace config
      then moveLeftWithVirtualSpace ext config model cursor inSelectionMode noOfColumns
      else moveLeftWithoutVirtualSapce ext config model cursor inSelectionMode noOfColumns)"

definition rightPosition :: "Collaborators \<Rightarrow> ICursorSimpleModel \<Rightarrow> int \<Rightarrow> int \<Rightarrow> Position" where
  "rightPosition ext model l c =
     (if c < getLineMaxColumn model l
      then \<lparr> lineNumber = l, column = c + nextCharLength ext (getLineContent model l) (c - 1) \<rparr>
      else if l < getLineCount model
      then \<lparr> lineNumber = l + 1, column = getLineMinColumn model (l + 1) \<rparr>
      else \<lparr> lineNumber = l, column = c \<rparr>)"

definition rightPositionAtomicSoftTabs ::
  "Collaborators \<Rightarrow> ICursorSimpleModel \<Rightarrow> int \<Rightarrow> int \<Rightarrow> int \<Rightarrow> int \<Rightarrow> Position" where
  "rightPositionAtomicSoftTabs ext model l c tabSize' indentSize' =
     (if c < getLineIndentColumn model l
      then (let lineContent = getLineContent model l;
                newPosition = atomicPosition ext lineContent (c - 1) tabSize' DirectionRight
            in if newPosition \<noteq> - 1
               then \<lparr> lineNumber = l, column = newPosition + 1 \<rparr>
               else rightPosition ext model l c)
      else rightPosition ext model l c)"

definition right ::
  "Collaborators \<Rightarrow> CursorConfiguration \<Rightarrow> ICursorSimpleModel \<Rightarrow> Position \<Rightarrow> Position" where
  "right ext config model pos =
     (if stickyTabStops config
      then rightPositionAtomicSoftTabs ext model (lineNumber pos) (column pos)
             (tabSize config) (indentSize config)
      else rightPosition ext model (lineNumber pos) (column pos))"

definition moveRightWithVirtualSpace ::
  "Collaborators \<Rightarrow> CursorConfiguration \<Rightarrow> ICursorSimpleModel \<Rightarrow> SingleCursorState
     \<Rightarrow> bool \<Rightarrow> int \<Rightarrow> SingleCursorState" where
  "moveRightWithVirtualSpace ext config model cursor inSelectionMode noOfColumns =
     (if hasSelection cursor True \<and> \<not> inSelectionMode
      then (let r = rightmostPosition cursor
            in move cursor inSelectionMode (lineNumber (fst r)) (column (fst r)) (snd r) None)
      else (let pos = Position_delta (virtualSpacePosition cursor) (noOfColumns - 1);
                clippedPos = clipPositionColumn pos model;
                normalizedPos = normalizePosition model clippedPos RightAffinity
            in if column normalizedPos < getLineMaxColumn model (lineNumber normalizedPos)
               then (let r = right ext config model normalizedPos
                     in move cursor inSelectionMode (lineNumber r) (column r) 0 None)
               else move cursor inSelectionMode (lineNumber normalizedPos)
                      (column normalizedPos)
                      (max 1 (column pos - column clippedPos + 1)) None))"

definition moveRightWithoutVirtualSpace ::
  "Collaborators \<Rightarrow> CursorConfiguration \<Rightarrow> ICursorSimpleModel \<Rightarrow> SingleCursorState
     \<Rightarrow> bool \<Rightarrow> int \<Rightarrow> SingleCursorState" where
  "moveRightWithoutVirtualSpace ext config model cursor inSelectionMode noOfColumns =
     (if hasSelection cursor False \<and> \<not> inSelectionMode
      then move cursor inSelectionMode (endLineNumber (selection cursor))
             (endColumn (selection cursor)) 0 None
      else (let pos = Position_delta (position cursor) (noOfColumns - 1);
                normalizedPos =
                  normalizePosition model (clipPositionColumn pos model) RightAffinity;
                r = right ext config model normalizedPos
            in move cursor inSelectionMode (lineNumber r) (column r) 0 None))"

definition moveRight ::
  "Collaborators \<Rightarrow> CursorConfiguration \<Rightarrow> ICursorSimpleModel \<Rightarrow> SingleCursorState
     \<Rightarrow> bool \<Rightarrow> int \<Rightarrow> SingleCursorState" where
  "moveRight ext config model cursor inSelectionMode noOfColumns =
     (if virtualSpace config
      then moveRightWithVirtualSpace ext config model cursor inSelectionMode noOfColumns
      else moveRightWithoutVirtualSpace ext config model cursor inSelectionMode noOfColumns)"

subsection \<open>Vertical motion\<close>

text \<open>
  \<open>vertical\<close> reassigns its parameters \<open>lineNumber\<close>, \<open>column\<close>,
  \<open>leftoverVisibleColumns\<close> and \<open>columnHint\<close>; the stages below are numbered in the
  order of the assignments. After the first block \<open>columnHint\<close> equals
  \<open>currentVisibleColumn\<close> on both branches; \<open>lineNumber = newLineNumber\<close> is assigned
  before the edge flags are computed, as in the source.
\<close>

definition vertical ::
  "Collaborators \<Rightarrow> CursorConfiguration \<Rightarrow> ICursorSimpleModel \<Rightarrow> int \<Rightarrow> int \<Rightarrow> int
     \<Rightarrow> int option \<Rightarrow> int \<Rightarrow> bool \<Rightarrow> PositionAffinity option \<Rightarrow> CursorPosition" where
  "vertical ext config model lineNumber0 column0 leftover0 columnHint0 newLineNumber
       allowMoveOnEdgeLine normalizationAffinity =
     (let currentVisibleColumn =
            (case columnHint0 of
               Some h \<Rightarrow> h
             | None \<Rightarrow>
                 visibleColumnFromColumn ext (getLineContent model lineNumber0) column0
                   (tabSize config) + leftover0);
          columnHint1 = Some currentVisibleColumn;
          lineCount = getLineCount model;
          lineNumber1 = newLineNumber;
          (lineNumber2, column2, leftover2, columnHint2) =
            (if virtualSpace config
             then (let l = max 1 (min lineCount lineNumber1)
                   in (l, columnFromVisibleColumn config model l currentVisibleColumn,
                       leftover0, columnHint1))
             else (let wasOnFirstPosition = (lineNumber1 = 1 \<and> column0 = 1);
                       wasOnLastPosition =
                         (lineNumber1 = lineCount \<and> column0 = getLineMaxColumn model lineNumber1);
                       wasAtEdgePosition =
                         (if newLineNumber < lineNumber1 then wasOnFirstPosition
                          else wasOnLastPosition);
                       (l, c) =
                         (if lineNumber1 < 1
                          then (1, if allowMoveOnEdgeLine then getLineMinColumn model 1
                                   else min (getLineMaxColumn model 1) column0)
                          else if lineNumber1 > lineCount
                          then (lineCount,
                                if allowMoveOnEdgeLine then getLineMaxColumn model lineCount
                                else min (getLineMaxColumn model lineCount) column0)
                          else (lineNumber1,
                                columnFromVisibleColumn config model lineNumber1
                                  currentVisibleColumn))
                   in if wasAtEdgePosition then (l, c, 0, None)
                      else (l, c, leftover0, columnHint1)));
          (lineNumber3, column3) =
            (case normalizationAffinity of
               None \<Rightarrow> (lineNumber2, column2)
             | Some affinity \<Rightarrow>
                 (let newPosition =
                        normalizePosition model
                          \<lparr> lineNumber = lineNumber2, column = column2 \<rparr> affinity
                  in (lineNumber newPosition, column newPosition)));
          leftover3 =
            (case columnHint2 of
               Some h \<Rightarrow>
                 currentVisibleColumn
                 - visibleColumnFromColumn ext (getLineContent model lineNumber3) column3
                     (tabSize config)
             | None \<Rightarrow> leftover2)
      in \<lparr> lineNumber = lineNumber3, column = column3,
           CursorPosition.leftoverVisibleColumns = leftover3,
           CursorPosition.columnHint = columnHint2 \<rparr>)"

definition down ::
  "Collaborators \<Rightarrow> CursorConfiguration \<Rightarrow> ICursorSimpleModel \<Rightarrow> int \<Rightarrow> int \<Rightarrow> int
     \<Rightarrow> int option \<Rightarrow> int \<Rightarrow> bool \<Rightarrow> CursorPosition" where
  "down ext config model l c leftover hint count allowMoveOnLastLine =
     vertical ext config model l c leftover hint (l + count) allowMoveOnLastLine
       (Some RightOfInjectedText)"

definition up ::
  "Collaborators \<Rightarrow> CursorConfiguration \<Rightarrow> ICursorSimpleModel \<Rightarrow> int \<Rightarrow> int \<Rightarrow> int
     \<Rightarrow> int option \<Rightarrow> int \<Rightarrow> bool \<Rightarrow> CursorPosition" where
  "up ext config model l c leftover hint count allowMoveOnFirstLine =
     vertical ext config model l c leftover hint (l - count) allowMoveOnFirstLine
       (Some LeftOfInjectedText)"

text \<open>
  The \<open>do ... while\<close> loop of \<open>moveDown\<close>, entered with the counter \<open>i\<close>: one attempt
  from line \<open>lineNumber + i\<close>, \<open>break\<close> when the normalized result lies below the
  starting line, and another round when \<open>i++ < 10 && lineNumber + i < lineCount\<close> (the
  second conjunct reads the incremented \<open>i\<close>). The function returns the last \<open>r\<close>
  together with the counter of the attempt that produced it.
\<close>

function moveDown_loop ::
  "Collaborators \<Rightarrow> CursorConfiguration \<Rightarrow> ICursorSimpleModel \<Rightarrow> int \<Rightarrow> int \<Rightarrow> int
     \<Rightarrow> int option \<Rightarrow> int \<Rightarrow> int \<Rightarrow> CursorPosition \<times> int" where
  "moveDown_loop ext config model l c leftover hint linesCount i =
     (let r = down ext config model (l + i) c leftover hint linesCount True;
          np = normalizePosition model \<lparr> lineNumber = lineNumber r, column = column r \<rparr>
                 NoneAffinity
      in if lineNumber np > l then (r, i)
         else if i < 10 \<and> l + (i + 1) < getLineCount model
         then moveDown_loop ext config model l c leftover hint linesCount (i + 1)
         else (r, i))"
  by pat_completeness auto
termination
  by (relation "measure (\<lambda>(ext, config, model, l, c, leftover, hint, linesCount, i). nat (10 - i))")
    auto

declare moveDown_loop.simps [simp del]

definition moveDown ::
  "Collaborators \<Rightarrow> CursorConfiguration \<Rightarrow> ICursorSimpleModel \<Rightarrow> SingleCursorState
     \<Rightarrow> bool \<Rightarrow> int \<Rightarrow> SingleCursorState" where
  "moveDown ext config model cursor inSelectionMode linesCount =
     (let (l, c, leftover, hint) =
            (if hasSelection cursor (virtualSpace config) \<and> \<not> inSelectionMode
             then (let t = rightmostPosition cursor
                   in (lineNumber (fst t), column (fst t), snd t, None))
             else (lineNumber (position cursor), column (position cursor),
                   SingleCursorState.leftoverVisibleColumns cursor,
                   SingleCursorState.columnHint cursor));
          r = fst (moveDown_loop ext config model l c leftover hint linesCount 0)
      in move cursor inSelectionMode (lineNumber r) (column r)
           (CursorPosition.leftoverVisibleColumns r) (CursorPosition.columnHint r))"

definition moveUp ::
  "Collaborators \<Rightarrow> CursorConfiguration \<Rightarrow> ICursorSimpleModel \<Rightarrow> SingleCursorState
     \<Rightarrow> bool \<Rightarrow> int \<Rightarrow> SingleCursorState" where
  "moveUp ext config model cursor inSelectionMode linesCount =
     (let (l, c, leftover, hint) =
            (if hasSelection cursor (virtualSpace config) \<and> \<not> inSelectionMode
             then (let t = leftmostPosition cursor
                   in (lineNumber (fst t), column (fst t), snd t, None))
             else (lineNumber (position cursor), column (position cursor),
                   SingleCursorState.leftoverVisibleColumns cursor,
                   SingleCursorState.columnHint cursor));
          r = up ext config model l c leftover hint linesCount True
      in move cursor inSelectionMode (lineNumber r) (column r)
           (CursorPosition.leftoverVisibleColumns r) (CursorPosition.columnHint r))"

definition translateDown ::
  "Collaborators \<Rightarrow> CursorConfiguration \<Rightarrow> ICursorSimpleModel \<Rightarrow> SingleCursorState
     \<Rightarrow> SingleCursorState" where
  "translateDown ext config model cursor =
     (let hint = SingleCursorState.columnHint cursor;
          sel = selection cursor;
          selStart = down ext config model (selectionStartLineNumber sel)
                       (selectionStartColumn sel) (selectionStartLeftoverVisibleColumns cursor)
                       hint 1 False;
          pos = down ext config model (positionLineNumber sel) (positionColumn sel)
                  (SingleCursorState.leftoverVisibleColumns cursor) hint 1 False
      in \<lparr> selectionStart = collapsedRange (lineNumber selStart) (column selStart),
           selectionStartKind = Simple,
           selectionStartLeftoverVisibleColumns = CursorPosition.leftoverVisibleColumns selStart,
           position = \<lparr> lineNumber = lineNumber pos, column = column pos \<rparr>,
           leftoverVisibleColumns = CursorPosition.leftoverVisibleColumns pos,
           columnHint = hint \<rparr>)"

definition translateUp ::
  "Collaborators \<Rightarrow> CursorConfiguration \<Rightarrow> ICursorSimpleModel \<Rightarrow> SingleCursorState
     \<Rightarrow> SingleCursorState" where
  "translateUp ext config model cursor =
     (let hint = SingleCursorState.columnHint cursor;
          sel = selection cursor;
          selStart = up ext config model (selectionStartLineNumber sel)
                       (selectionStartColumn sel) (selectionStartLeftoverVisibleColumns cursor)
                       hint 1 False;
          pos = up ext config model (positionLineNumber sel) (positionColumn sel)
                  (SingleCursorState.leftoverVisibleColumns cursor) hint 1 False
      in \<lparr> selectionStart = collapsedRange (lineNumber selStart) (column selStart),
           selectionStartKind = Simple,
           selectionStartLeftoverVisibleColumns = CursorPosition.leftoverVisibleColumns selStart,
           position = \<lparr> lineNumber = lineNumber pos, column = column pos \<rparr>,
           leftoverVisibleColumns = CursorPosition.leftoverVisibleColumns pos,
           columnHint = hint \<rparr>)"

subsection \<open>Blank lines, line and buffer boundaries\<close>

definition isBlankLine :: "ICursorSimpleModel \<Rightarrow> int \<Rightarrow> bool" where
  "isBlankLine model l = (if getLineFirstNonWhitespaceColumn model l = 0 then True else False)"

text \<open>The two \<open>while\<close> loops of \<open>moveToPrevBlankLine\<close>, each as a function of \<open>lineNumber\<close>.\<close>

function whileBlankUp :: "ICursorSimpleModel \<Rightarrow> int \<Rightarrow> int" where
  "whileBlankUp model l =
     (if l > 1 \<and> isBlankLine model l then whileBlankUp model (l - 1) else l)"
  by pat_completeness auto
termination
  by (relation "measure (\<lambda>(model, l). nat l)") auto

declare whileBlankUp.simps [simp del]

function whileNonBlankUp :: "ICursorSimpleModel \<Rightarrow> int \<Rightarrow> int" where
  "whileNonBlankUp model l =
     (if l > 1 \<and> \<not> isBlankLine model l then whileNonBlankUp model (l - 1) else l)"
  by pat_completeness auto
termination
  by (relation "measure (\<lambda>(model, l). nat l)") auto

declare whileNonBlankUp.simps [simp del]

definition moveToPrevBlankLine ::
  "CursorConfiguration \<Rightarrow> ICursorSimpleModel \<Rightarrow> SingleCursorState \<Rightarrow> bool
     \<Rightarrow> SingleCursorState" where
  "moveToPrevBlankLine config model cursor inSelectionMode =
     (let l = whileNonBlankUp model (whileBlankUp model (lineNumber (position cursor)))
      in move cursor inSelectionMode l (getLineMinColumn model l) 0 None)"

text \<open>The two \<open>while\<close> loops of \<open>moveToNextBlankLine\<close>; \<open>lineCount\<close> is read once.\<close>

function whileBlankDown :: "ICursorSimpleModel \<Rightarrow> int \<Rightarrow> int \<Rightarrow> int" where
  "whileBlankDown model lineCount l =
     (if l < lineCount \<and> isBlankLine model l then whileBlankDown model lineCount (l + 1)
      else l)"
  by pat_completeness auto
termination
  by (relation "measure (\<lambda>(model, lineCount, l). nat (lineCount - l))") auto

declare whileBlankDown.simps [simp del]

function whileNonBlankDown :: "ICursorSimpleModel \<Rightarrow> int \<Rightarrow> int \<Rightarrow> int" where
  "whileNonBlankDown model lineCount l =
     (if l < lineCount \<and> \<not> isBlankLine model l then whileNonBlankDown model lineCount (l + 1)
      else l)"
  by pat_completeness auto
termination
  by (relation "measure (\<lambda>(model, lineCount, l). nat (lineCount - l))") auto

declare whileNonBlankDown.simps [simp del]

definition moveToNextBlankLine ::
  "CursorConfiguration \<Rightarrow> ICursorSimpleModel \<Rightarrow> SingleCursorState \<Rightarrow> bool
     \<Rightarrow> SingleCursorState" where
  "moveToNextBlankLine config model cursor inSelectionMode =
     (let lineCount = getLineCount model;
          l = whileNonBlankDown model lineCount
                (whileBlankDown model lineCount (lineNumber (position cursor)))
      in move cursor inSelectionMode l (getLineMinColumn model l) 0 None)"

definition moveToBeginningOfLine ::
  "CursorConfiguration \<Rightarrow> ICursorSimpleModel \<Rightarrow> SingleCursorState \<Rightarrow> bool
     \<Rightarrow> SingleCursorState" where
  "moveToBeginningOfLine config model cursor inSelectionMode =
     (let l = lineNumber (position cursor);
          minColumn = getLineMinColumn model l;
          firstNonBlankColumn =
            (if getLineFirstNonWhitespaceColumn model l = 0 then minColumn
             else getLineFirstNonWhitespaceColumn model l);
          relevantColumnNumber = column (position cursor);
          c = (if relevantColumnNumber = firstNonBlankColumn then minColumn
               else firstNonBlankColumn)
      in move cursor inSelectionMode l c 0 None)"

definition moveToEndOfLine ::
  "CursorConfiguration \<Rightarrow> ICursorSimpleModel \<Rightarrow> SingleCursorState \<Rightarrow> bool \<Rightarrow> bool
     \<Rightarrow> SingleCursorState" where
  "moveToEndOfLine config model cursor inSelectionMode sticky =
     (let l = lineNumber (position cursor);
          maxColumn = getLineMaxColumn model l
      in move cursor inSelectionMode l maxColumn
           (if sticky then MAX_SAFE_SMALL_INTEGER - maxColumn else 0) None)"

definition moveToBeginningOfBuffer ::
  "CursorConfiguration \<Rightarrow> ICursorSimpleModel \<Rightarrow> SingleCursorState \<Rightarrow> bool
     \<Rightarrow> SingleCursorState" where
  "moveToBeginningOfBuffer config model cursor inSelectionMode =
     move cursor inSelectionMode 1 1 0 None"

definition moveToEndOfBuffer ::
  "CursorConfiguration \<Rightarrow> ICursorSimpleModel \<Rightarrow> SingleCursorState \<Rightarrow> bool
     \<Rightarrow> SingleCursorState" where
  "moveToEndOfBuffer config model cursor inSelectionMode =
     (let lastLineNumber = getLineCount model;
          lastColumn = getLineMaxColumn model lastLineNumber
      in move cursor inSelectionMode lastLineNumber lastColumn 0 None)"

subsection \<open>A plain text buffer\<close>

text \<open>
  Modelled from the spec: an implementation of the line model and of the imported
  functions for the examples, since none is among the sources. \<open>textModel\<close> is a buffer
  of the given lines without injected, folded or wrapped text: columns run from 1 to
  the length of the line plus one, the indentation is the leading run of spaces and tabs,
  the first non-whitespace column is 0 on a line of whitespace only, and normalization
  leaves every position where it is.
\<close>

definition isWhitespace :: "char \<Rightarrow> bool" where
  "isWhitespace ch \<longleftrightarrow> ch = CHR '' '' \<or> ch = CHR 0x09"

definition lineAt :: "string list \<Rightarrow> int \<Rightarrow> string" where
  "lineAt ls l = (if 1 \<le> l \<and> l \<le> int (length ls) then ls ! nat (l - 1) else [])"

definition textModel :: "string list \<Rightarrow> ICursorSimpleModel" where
  "textModel ls =
     \<lparr> getLineCount = int (length ls),
       getLineContent = lineAt ls,
       getLineMinColumn = (\<lambda>l. 1),
       getLineMaxColumn = (\<lambda>l. int (length (lineAt ls l)) + 1),
       getLineIndentColumn = (\<lambda>l. int (length (takeWhile isWhitespace (lineAt ls l))) + 1),
       getLineFirstNonWhitespaceColumn =
         (\<lambda>l. if list_all isWhitespace (lineAt ls l) then 0
              else int (length (takeWhile isWhitespace (lineAt ls l))) + 1),
       normalizePosition = (\<lambda>p affinity. p) \<rparr>"

text \<open>
  Modelled from the spec: the imported functions on lines of single-unit characters
  without tabs or indentation: every character is one unit long, the tab-stop scanner
  finds no atomic stop (\<open>-1\<close>), and the visible column of a column is the number of
  characters before it.
\<close>

definition plainText :: Collaborators where
  "plainText =
     \<lparr> prevCharLength = (\<lambda>content offset. 1),
       nextCharLength = (\<lambda>content offset. 1),
       atomicPosition = (\<lambda>content offset tabSize' direction. - 1),
       visibleColumnFromColumn =
         (\<lambda>content c tabSize'. min (c - 1) (int (length content))) \<rparr>"

text \<open>
  Modelled from the spec: a configuration without sticky tab stops, whose
  \<open>columnFromVisibleColumn\<close> maps a visible column back to the real column of a line
  without tabs, clipped into the line.
\<close>

definition plainConfig :: "bool \<Rightarrow> CursorConfiguration" where
  "plainConfig vs =
     \<lparr> tabSize = 4, indentSize = 4, stickyTabStops = False, virtualSpace = vs,
       columnFromVisibleColumn =
         (\<lambda>model l visibleColumn.
            clipRange (visibleColumn + 1) (getLineMinColumn model l) (getLineMaxColumn model l)) \<rparr>"

text \<open>A cursor without selection at a position, with the given leftover and no hint.\<close>

definition cursorAt :: "int \<Rightarrow> int \<Rightarrow> int \<Rightarrow> SingleCursorState" where
  "cursorAt l c leftover =
     \<lparr> selectionStart = collapsedRange l c, selectionStartKind = Simple,
       selectionStartLeftoverVisibleColumns = leftover,
       position = \<lparr> lineNumber = l, column = c \<rparr>,
       leftoverVisibleColumns = leftover, columnHint = None \<rparr>"

subsection \<open>Example cursors and buffers\<close>

text \<open>A cursor whose selection runs from \<open>(1,1)\<close> to the active position \<open>(1,5)\<close>.\<close>

definition selectedCursor :: SingleCursorState where
  "selectedCursor =
     \<lparr> selectionStart = collapsedRange 1 1, selectionStartKind = Simple,
       selectionStartLeftoverVisibleColumns = 0,
       position = \<lparr> lineNumber = 1, column = 5 \<rparr>,
       leftoverVisibleColumns = 0, columnHint = None \<rparr>"

text \<open>
  Modelled from the spec: the tab-stop scanner with tab size 4 on a line indented by
  exactly four spaces: rightwards from the offsets 0 to 3 the next aligned index is 4,
  leftwards from the offsets 1 to 4 it is 0, and there is no atomic stop elsewhere
  (\<open>-1\<close>). On every other line this stand-in finds no stop, which is what a line without
  indentation gives; lines indented otherwise are not covered by it.
\<close>

definition softTabText :: Collaborators where
  "softTabText =
     plainText \<lparr> atomicPosition :=
       (\<lambda>content offset tabSize' direction.
          if takeWhile isWhitespace content = ''    '' \<and> tabSize' = 4
          then (if direction = DirectionRight \<and> 0 \<le> offset \<and> offset < 4 then 4
                else if direction = DirectionLeft \<and> 0 < offset \<and> offset \<le> 4 then 0
                else - 1)
          else - 1) \<rparr>"

definition stickyConfig :: CursorConfiguration where
  "stickyConfig = (plainConfig False) \<lparr> stickyTabStops := True \<rparr>"

text \<open>
  Modelled from the spec: a line model of twenty lines on which every candidate
  normalizes back to line 1 under affinity \<open>None\<close> (and stays where it is under the
  other affinities), the case the retry bound of \<open>moveDown\<close> guards against.
\<close>

definition stuckModel :: ICursorSimpleModel where
  "stuckModel =
     (textModel (replicate 20 ''x''))
       \<lparr> normalizePosition :=
           (\<lambda>p affinity. if affinity = NoneAffinity
                         then \<lparr> lineNumber = 1, column = column p \<rparr> else p) \<rparr>"

text \<open>The buffer \<open>["a", "", "b", "c", ""]\<close>.\<close>

definition paragraphs :: ICursorSimpleModel where
  "paragraphs = textModel [''a'', '''', ''b'', ''c'', '''']"

text \<open>
  Notation for the loop of \<open>moveDown\<close>: the attempt with counter \<open>i\<close>, and the line
  on which the model normalizes a result with affinity \<open>None\<close>.
\<close>

abbreviation attempt ::
  "Collaborators \<Rightarrow> CursorConfiguration \<Rightarrow> ICursorSimpleModel \<Rightarrow> int \<Rightarrow> int \<Rightarrow> int
     \<Rightarrow> int option \<Rightarrow> int \<Rightarrow> int \<Rightarrow> CursorPosition" where
  "attempt ext config model l c leftover hint linesCount i \<equiv>
     down ext config model (l + i) c leftover hint linesCount True"

abbreviation normalizedLine :: "ICursorSimpleModel \<Rightarrow> CursorPosition \<Rightarrow> int" where
  "normalizedLine model r \<equiv>
     lineNumber (normalizePosition model \<lparr> lineNumber = lineNumber r, column = column r \<rparr>
                   NoneAffinity)"

text \<open>
  Modelled from the spec: a line \<open>ab\<close> followed by one injected character, as the
  cursor sees it: the maximum column 4 lies behind the injected text, and normalization
  biased to the left moves it in front of the injected text, to column 3.
\<close>

definition injectedLine :: ICursorSimpleModel where
  "injectedLine =
     (textModel [''ab>''])
       \<lparr> normalizePosition :=
           (\<lambda>p affinity.
              if column p = 4 \<and> (affinity = LeftAffinity \<or> affinity = LeftOfInjectedText)
              then \<lparr> lineNumber = lineNumber p, column = 3 \<rparr> else p) \<rparr>"

text \<open>
  The leftover columns of a returned state \<open>s\<close>: both are non-negative, and without
  virtual space the leftover of the active end is 0 and that of the selection-start end
  is 0 or, when the selection is extended, what the cursor had.
\<close>

abbreviation leftoversKept ::
  "CursorConfiguration \<Rightarrow> SingleCursorState \<Rightarrow> bool \<Rightarrow> SingleCursorState \<Rightarrow> bool" where
  "leftoversKept config cursor inSel s \<equiv>
     0 \<le> SingleCursorState.leftoverVisibleColumns s
     \<and> 0 \<le> selectionStartLeftoverVisibleColumns s
     \<and> (\<not> virtualSpace config \<longrightarrow>
          SingleCursorState.leftoverVisibleColumns s = 0
          \<and> selectionStartLeftoverVisibleColumns s
              = (if inSel then selectionStartLeftoverVisibleColumns cursor else 0))"

text \<open>
  Modelled from the spec: the character-length queries on a line of four units whose
  second and third unit form one surrogate pair: the character starting at offset 1 and
  the character ending at offset 3 are two units long, every other one is one unit long.
\<close>

definition pairText :: Collaborators where
  "pairText =
     plainText \<lparr> prevCharLength := (\<lambda>content offset. if offset = 3 then 2 else 1),
                 nextCharLength := (\<lambda>content offset. if offset = 1 then 2 else 1) \<rparr>"

text \<open>A cursor at \<open>(1,3)\<close> that carries the column hint 8 of an earlier vertical motion.\<close>

definition hintedCursor :: SingleCursorState where
  "hintedCursor = (cursorAt 1 3 0) \<lparr> columnHint := Some 8 \<rparr>"

text \<open>
  The line, column, leftover and hint from which \<open>moveUp\<close> and \<open>moveDown\<close> start: the
  leftmost (up) or rightmost (down) edge of the selection without hint when the motion
  leaves a selection, the active position otherwise.
\<close>

abbreviation moveUp_start ::
  "CursorConfiguration \<Rightarrow> SingleCursorState \<Rightarrow> bool \<Rightarrow> int \<times> int \<times> int \<times> int option" where
  "moveUp_start config cursor inSel \<equiv>
     (if hasSelection cursor (virtualSpace config) \<and> \<not> inSel
      then (lineNumber (fst (leftmostPosition cursor)),
            column (fst (leftmostPosition cursor)), snd (leftmostPosition cursor), None)
      else (lineNumber (position cursor), column (position cursor),
            SingleCursorState.leftoverVisibleColumns cursor,
            SingleCursorState.columnHint cursor))"

abbreviation moveDown_start ::
  "CursorConfiguration \<Rightarrow> SingleCursorState \<Rightarrow> bool \<Rightarrow> int \<times> int \<times> int \<times> int option" where
  "moveDown_start config cursor inSel \<equiv>
     (if hasSelection cursor (virtualSpace config) \<and> \<not> inSel
      then (lineNumber (fst (rightmostPosition cursor)),
            column (fst (rightmostPosition cursor)), snd (rightmostPosition cursor), None)
      else (lineNumber (position cursor), column (position cursor),
            SingleCursorState.leftoverVisibleColumns cursor,
            SingleCursorState.columnHint cursor))"

section \<open>Properties\<close>

subsection \<open>The state built by \<open>move\<close>\<close>

lemma move_fields:
  "position (move cursor b l c lo h) = \<lparr> lineNumber = l, column = c \<rparr>"
  "SingleCursorState.leftoverVisibleColumns (move cursor b l c lo h) = lo"
  "SingleCursorState.columnHint (move cursor b l c lo h) = h"
  "selectionStartLeftoverVisibleColumns (move cursor b l c lo h) =
     (if b then selectionStartLeftoverVisibleColumns cursor else lo)"
  by (simp_all add: move_def)

subsection \<open>Collapsing a selection\<close>

text \<open>
  C1. For every cursor state whose selection is non-empty, with virtual space disabled
  and without extending the selection, \<open>moveLeft\<close> returns a state positioned at the
  start of the selection and \<open>moveRight\<close> a state positioned at its end; in both the
  leftover visible columns are 0 and the column hint is null.
\<close>

theorem collapse_selection_without_virtual_space:
  assumes "\<not> Range_isEmpty (selection cursor)" and "\<not> virtualSpace config"
  shows "position (moveLeft ext config model cursor False n) = getStartPosition (selection cursor)
       \<and> position (moveRight ext config model cursor False n) = getEndPosition (selection cursor)
       \<and> SingleCursorState.leftoverVisibleColumns (moveLeft ext config model cursor False n) = 0
       \<and> SingleCursorState.columnHint (moveLeft ext config model cursor False n) = None
       \<and> SingleCursorState.leftoverVisibleColumns (moveRight ext config model cursor False n) = 0
       \<and> SingleCursorState.columnHint (moveRight ext config model cursor False n) = None"
proof -
  from assms(1) have sel: "hasSelection cursor False"
    by (simp add: hasSelection_def)
  have l: "moveLeft ext config model cursor False n =
      move cursor False (startLineNumber (selection cursor)) (startColumn (selection cursor)) 0 None"
    using sel assms(2) by (simp add: moveLeft_def moveLeftWithoutVirtualSapce_def)
  have r: "moveRight ext config model cursor False n =
      move cursor False (endLineNumber (selection cursor)) (endColumn (selection cursor)) 0 None"
    using sel assms(2) by (simp add: moveRight_def moveRightWithoutVirtualSpace_def)
  show ?thesis
    by (simp add: l r move_fields getStartPosition_def getEndPosition_def)
qed

lemma selection_selectedCursor:
  "selection selectedCursor =
     \<lparr> startLineNumber = 1, startColumn = 1, endLineNumber = 1, endColumn = 5,
       selectionStartLineNumber = 1, selectionStartColumn = 1,
       positionLineNumber = 1, positionColumn = 5 \<rparr>"
  by (simp add: selection_def selectedCursor_def collapsedRange_def Range_isEmpty_def
      Selection_fromPositions_def getStartPosition_def isBeforeOrEqual_def)

text \<open>The selection \<open>[(1,1)-(1,5)]\<close> collapses to \<open>(1,1)\<close> leftwards, to \<open>(1,5)\<close> rightwards.\<close>

theorem collapse_selection_witness:
  "\<not> Range_isEmpty (selection selectedCursor) \<and> \<not> virtualSpace (plainConfig False)
   \<and> position (moveLeft plainText (plainConfig False) (textModel [''abcdef'']) selectedCursor False 1)
       = \<lparr> lineNumber = 1, column = 1 \<rparr>
   \<and> position (moveRight plainText (plainConfig False) (textModel [''abcdef'']) selectedCursor False 1)
       = \<lparr> lineNumber = 1, column = 5 \<rparr>"
  using collapse_selection_without_virtual_space
    [of selectedCursor "plainConfig False" plainText "textModel [''abcdef'']" 1]
  by (simp add: selection_selectedCursor Range_isEmpty_def plainConfig_def
      getStartPosition_def getEndPosition_def)

subsection \<open>The column hint\<close>

text \<open>
  C10. Every horizontal, line-boundary, buffer-boundary and blank-line motion
  (\<open>moveLeft\<close>, \<open>moveRight\<close>, \<open>moveToBeginningOfLine\<close>, \<open>moveToEndOfLine\<close>,
  \<open>moveToBeginningOfBuffer\<close>, \<open>moveToEndOfBuffer\<close>, \<open>moveToPrevBlankLine\<close>,
  \<open>moveToNextBlankLine\<close>) returns a state whose column hint is null, for every input;
  so a non-null hint can only come out of the vertical motions and never survives one
  of these eight.
\<close>

theorem horizontal_and_boundary_motions_clear_columnHint:
  "SingleCursorState.columnHint (moveLeft ext config model cursor inSel n) = None
   \<and> SingleCursorState.columnHint (moveRight ext config model cursor inSel n) = None
   \<and> SingleCursorState.columnHint (moveToBeginningOfLine config model cursor inSel) = None
   \<and> SingleCursorState.columnHint (moveToEndOfLine config model cursor inSel sticky) = None
   \<and> SingleCursorState.columnHint (moveToBeginningOfBuffer config model cursor inSel) = None
   \<and> SingleCursorState.columnHint (moveToEndOfBuffer config model cursor inSel) = None
   \<and> SingleCursorState.columnHint (moveToPrevBlankLine config model cursor inSel) = None
   \<and> SingleCursorState.columnHint (moveToNextBlankLine config model cursor inSel) = None"
  by (simp add: moveLeft_def moveLeftWithVirtualSpace_def moveLeftWithoutVirtualSapce_def
      moveRight_def moveRightWithVirtualSpace_def moveRightWithoutVirtualSpace_def
      moveToBeginningOfLine_def moveToEndOfLine_def moveToBeginningOfBuffer_def
      moveToEndOfBuffer_def moveToPrevBlankLine_def moveToNextBlankLine_def
      move_fields Let_def)

subsection \<open>The example buffer and collaborators, evaluated\<close>

lemma textModel_simps:
  "getLineCount (textModel ls) = int (length ls)"
  "getLineContent (textModel ls) l = lineAt ls l"
  "getLineMinColumn (textModel ls) l = 1"
  "getLineMaxColumn (textModel ls) l = int (length (lineAt ls l)) + 1"
  "getLineIndentColumn (textModel ls) l = int (length (takeWhile isWhitespace (lineAt ls l))) + 1"
  "getLineFirstNonWhitespaceColumn (textModel ls) l =
     (if list_all isWhitespace (lineAt ls l) then 0
      else int (length (takeWhile isWhitespace (lineAt ls l))) + 1)"
  "normalizePosition (textModel ls) p a = p"
  by (simp_all add: textModel_def)

lemma plainText_simps:
  "prevCharLength plainText content offset = 1"
  "nextCharLength plainText content offset = 1"
  "atomicPosition plainText content offset t d = - 1"
  "visibleColumnFromColumn plainText content c t = min (c - 1) (int (length content))"
  by (simp_all add: plainText_def)

lemma softTabText_simps:
  "prevCharLength softTabText content offset = 1"
  "nextCharLength softTabText content offset = 1"
  "atomicPosition softTabText content offset t d =
     (if takeWhile isWhitespace content = ''    '' \<and> t = 4
      then (if d = DirectionRight \<and> 0 \<le> offset \<and> offset < 4 then 4
            else if d = DirectionLeft \<and> 0 < offset \<and> offset \<le> 4 then 0
            else - 1)
      else - 1)"
  by (simp_all add: softTabText_def plainText_def)

lemma stickyConfig_simps:
  "stickyTabStops stickyConfig" "tabSize stickyConfig = 4" "indentSize stickyConfig = 4"
  "\<not> stickyTabStops (plainConfig vs)" "virtualSpace (plainConfig vs) = vs"
  "tabSize (plainConfig vs) = 4"
  by (simp_all add: stickyConfig_def plainConfig_def)

subsection \<open>Example cursors, evaluated\<close>

lemma cursorAt_simps:
  "position (cursorAt l c lo) = \<lparr> lineNumber = l, column = c \<rparr>"
  "SingleCursorState.leftoverVisibleColumns (cursorAt l c lo) = lo"
  "selectionStartLeftoverVisibleColumns (cursorAt l c lo) = lo"
  "SingleCursorState.columnHint (cursorAt l c lo) = None"
  "selectionStart (cursorAt l c lo) = collapsedRange l c"
  by (simp_all add: cursorAt_def)

lemma hasSelection_cursorAt: "\<not> hasSelection (cursorAt l c lo) vs"
  by (simp add: hasSelection_def selection_def cursorAt_def collapsedRange_def Range_isEmpty_def
      Selection_fromPositions_def getStartPosition_def isBeforeOrEqual_def)

lemma plainConfig_columnFromVisibleColumn:
  "columnFromVisibleColumn (plainConfig vs) model l v =
     clipRange (v + 1) (getLineMinColumn model l) (getLineMaxColumn model l)"
  by (simp add: plainConfig_def)

lemma hasSelection_move: "\<not> hasSelection (move cursor False l c lo h) False"
  by (simp add: hasSelection_def selection_def move_def collapsedRange_def Range_isEmpty_def
      Selection_fromPositions_def getStartPosition_def isBeforeOrEqual_def)

lemma Position_rebuild: "\<lparr> lineNumber = lineNumber p, column = column p \<rparr> = (p::Position)"
  by simp

lemma clipRange_inside: "lo \<le> v \<Longrightarrow> v \<le> hi \<Longrightarrow> clipRange v lo hi = v"
  by (simp add: clipRange_def)

subsection \<open>Single steps\<close>

text \<open>
  C5. The plain single-character step moves by exactly the length that the
  character-length query reports for the character before (leftwards) or after
  (rightwards) the column, so the column never lands inside a character that the query
  reports as one unit; when the step would cross a line boundary, leftward motion lands
  at the maximum column of the previous line and rightward motion at the minimum column
  of the next line; at the absolute buffer start (leftwards) or buffer end (rightwards)
  the position is returned unchanged.
\<close>

theorem plain_single_character_step:
  "(column pos > getLineMinColumn model (lineNumber pos) \<longrightarrow>
      leftPosition ext model pos =
        \<lparr> lineNumber = lineNumber pos,
          column = column pos
                   - prevCharLength ext (getLineContent model (lineNumber pos)) (column pos - 1) \<rparr>)
   \<and> (column pos \<le> getLineMinColumn model (lineNumber pos) \<and> lineNumber pos > 1 \<longrightarrow>
      leftPosition ext model pos =
        \<lparr> lineNumber = lineNumber pos - 1,
          column = getLineMaxColumn model (lineNumber pos - 1) \<rparr>)
   \<and> (column pos \<le> getLineMinColumn model (lineNumber pos) \<and> lineNumber pos \<le> 1 \<longrightarrow>
      leftPosition ext model pos = pos)
   \<and> (c < getLineMaxColumn model l \<longrightarrow>
      rightPosition ext model l c =
        \<lparr> lineNumber = l, column = c + nextCharLength ext (getLineContent model l) (c - 1) \<rparr>)
   \<and> (c \<ge> getLineMaxColumn model l \<and> l < getLineCount model \<longrightarrow>
      rightPosition ext model l c =
        \<lparr> lineNumber = l + 1, column = getLineMinColumn model (l + 1) \<rparr>)
   \<and> (c \<ge> getLineMaxColumn model l \<and> l \<ge> getLineCount model \<longrightarrow>
      rightPosition ext model l c = \<lparr> lineNumber = l, column = c \<rparr>)"
  by (simp add: leftPosition_def rightPosition_def Position_delta_def Let_def)

theorem plain_single_character_step_witness:
  "leftPosition plainText (textModel [''ab'', ''cd'']) \<lparr> lineNumber = 2, column = 3 \<rparr>
     = \<lparr> lineNumber = 2, column = 2 \<rparr>
   \<and> leftPosition plainText (textModel [''ab'', ''cd'']) \<lparr> lineNumber = 2, column = 1 \<rparr>
     = \<lparr> lineNumber = 1, column = 3 \<rparr>
   \<and> leftPosition plainText (textModel [''ab'', ''cd'']) \<lparr> lineNumber = 1, column = 1 \<rparr>
     = \<lparr> lineNumber = 1, column = 1 \<rparr>
   \<and> rightPosition plainText (textModel [''ab'', ''cd'']) 1 2 = \<lparr> lineNumber = 1, column = 3 \<rparr>
   \<and> rightPosition plainText (textModel [''ab'', ''cd'']) 1 3 = \<lparr> lineNumber = 2, column = 1 \<rparr>
   \<and> rightPosition plainText (textModel [''ab'', ''cd'']) 2 3 = \<lparr> lineNumber = 2, column = 3 \<rparr>"
  using plain_single_character_step
      [where pos = "\<lparr> lineNumber = 2, column = 3 \<rparr>" and model = "textModel [''ab'', ''cd'']"
         and ext = plainText and c = 2 and l = 1]
    plain_single_character_step
      [where pos = "\<lparr> lineNumber = 2, column = 1 \<rparr>" and model = "textModel [''ab'', ''cd'']"
         and ext = plainText and c = 3 and l = 1]
    plain_single_character_step
      [where pos = "\<lparr> lineNumber = 1, column = 1 \<rparr>" and model = "textModel [''ab'', ''cd'']"
         and ext = plainText and c = 3 and l = 2]
  by (simp add: textModel_simps plainText_simps lineAt_def)

text \<open>
  C8. The atomic soft-tab step is taken only when \<open>stickyTabStops\<close> is set and the
  column lies within the indentation of the line (at or before the indent column
  leftwards, before it rightwards); it delegates to \<open>atomicPosition\<close> of the tab-stop
  scanner, and whenever the scanner returns the sentinel \<open>-1\<close>, or leftwards a stop
  before the minimum column of the line, the operation falls back to the plain
  single-character step.
\<close>

theorem atomic_soft_tab_step:
  "(\<not> stickyTabStops config \<longrightarrow>
      left ext config model pos = leftPosition ext model pos
      \<and> right ext config model pos = rightPosition ext model (lineNumber pos) (column pos))
   \<and> (stickyTabStops config \<and> column pos > getLineIndentColumn model (lineNumber pos) \<longrightarrow>
      left ext config model pos = leftPosition ext model pos)
   \<and> (stickyTabStops config \<and> column pos \<ge> getLineIndentColumn model (lineNumber pos) \<longrightarrow>
      right ext config model pos = rightPosition ext model (lineNumber pos) (column pos))
   \<and> (stickyTabStops config \<and> column pos \<le> getLineIndentColumn model (lineNumber pos) \<longrightarrow>
      left ext config model pos =
        (let stop = atomicPosition ext (getLineContent model (lineNumber pos)) (column pos - 1)
                      (tabSize config) DirectionLeft
         in if stop = - 1 \<or> stop + 1 < getLineMinColumn model (lineNumber pos)
            then leftPosition ext model pos
            else \<lparr> lineNumber = lineNumber pos, column = stop + 1 \<rparr>))
   \<and> (stickyTabStops config \<and> column pos < getLineIndentColumn model (lineNumber pos) \<longrightarrow>
      right ext config model pos =
        (let stop = atomicPosition ext (getLineContent model (lineNumber pos)) (column pos - 1)
                      (tabSize config) DirectionRight
         in if stop = - 1
            then rightPosition ext model (lineNumber pos) (column pos)
            else \<lparr> lineNumber = lineNumber pos, column = stop + 1 \<rparr>))"
  by (auto simp add: left_def right_def leftPositionAtomicSoftTabs_def
      rightPositionAtomicSoftTabs_def Let_def)

theorem atomic_soft_tab_step_witness:
  "left softTabText stickyConfig (textModel [''ab'', ''    xy'']) \<lparr> lineNumber = 2, column = 5 \<rparr>
     = \<lparr> lineNumber = 2, column = 1 \<rparr>
   \<and> right softTabText stickyConfig (textModel [''ab'', ''    xy'']) \<lparr> lineNumber = 2, column = 1 \<rparr>
     = \<lparr> lineNumber = 2, column = 5 \<rparr>
   \<and> left softTabText stickyConfig (textModel [''ab'', ''    xy'']) \<lparr> lineNumber = 2, column = 3 \<rparr>
     = \<lparr> lineNumber = 2, column = 1 \<rparr>
   \<and> right softTabText stickyConfig (textModel [''ab'', ''    xy'']) \<lparr> lineNumber = 2, column = 3 \<rparr>
     = \<lparr> lineNumber = 2, column = 5 \<rparr>
   \<and> left softTabText stickyConfig (textModel [''ab'', ''    xy'']) \<lparr> lineNumber = 2, column = 1 \<rparr>
     = \<lparr> lineNumber = 1, column = 3 \<rparr>
   \<and> left softTabText stickyConfig (textModel [''ab'', ''    xy'']) \<lparr> lineNumber = 2, column = 7 \<rparr>
     = \<lparr> lineNumber = 2, column = 6 \<rparr>
   \<and> right softTabText stickyConfig (textModel [''ab'', ''    xy'']) \<lparr> lineNumber = 2, column = 6 \<rparr>
     = \<lparr> lineNumber = 2, column = 7 \<rparr>
   \<and> left softTabText (plainConfig False) (textModel [''ab'', ''    xy'']) \<lparr> lineNumber = 2, column = 5 \<rparr>
     = \<lparr> lineNumber = 2, column = 4 \<rparr>"
  using atomic_soft_tab_step
      [where config = stickyConfig and ext = softTabText and model = "textModel [''ab'', ''    xy'']"
         and pos = "\<lparr> lineNumber = 2, column = 5 \<rparr>"]
    atomic_soft_tab_step
      [where config = stickyConfig and ext = softTabText and model = "textModel [''ab'', ''    xy'']"
         and pos = "\<lparr> lineNumber = 2, column = 1 \<rparr>"]
    atomic_soft_tab_step
      [where config = stickyConfig and ext = softTabText and model = "textModel [''ab'', ''    xy'']"
         and pos = "\<lparr> lineNumber = 2, column = 3 \<rparr>"]
    atomic_soft_tab_step
      [where config = stickyConfig and ext = softTabText and model = "textModel [''ab'', ''    xy'']"
         and pos = "\<lparr> lineNumber = 2, column = 7 \<rparr>"]
    atomic_soft_tab_step
      [where config = stickyConfig and ext = softTabText and model = "textModel [''ab'', ''    xy'']"
         and pos = "\<lparr> lineNumber = 2, column = 6 \<rparr>"]
    atomic_soft_tab_step
      [where config = "plainConfig False" and ext = softTabText and model = "textModel [''ab'', ''    xy'']"
         and pos = "\<lparr> lineNumber = 2, column = 5 \<rparr>"]
  by (simp add: textModel_simps softTabText_simps stickyConfig_simps lineAt_def isWhitespace_def
      leftPosition_def rightPosition_def Position_delta_def)

subsection \<open>The retry loop of \<open>moveDown\<close>\<close>

lemma moveDown_loop_from:
  "0 \<le> i \<Longrightarrow> i \<le> 10 \<Longrightarrow>
   \<exists>n. i \<le> n \<and> n \<le> 10
     \<and> moveDown_loop ext config model l c leftover hint linesCount i
         = (attempt ext config model l c leftover hint linesCount n, n)
     \<and> (\<forall>j. i \<le> j \<and> j < n \<longrightarrow>
           normalizedLine model (attempt ext config model l c leftover hint linesCount j) \<le> l)
     \<and> (\<forall>j. i < j \<and> j \<le> n \<longrightarrow> l + j < getLineCount model)
     \<and> (normalizedLine model (attempt ext config model l c leftover hint linesCount n) > l
        \<or> n = 10 \<or> \<not> l + (n + 1) < getLineCount model)"
proof (induction ext config model l c leftover hint linesCount i rule: moveDown_loop.induct)
  case (1 ext config model l c leftover hint linesCount i)
  let ?r = "attempt ext config model l c leftover hint linesCount i"
  show ?case
  proof (cases "normalizedLine model ?r > l")
    case True
    then have "moveDown_loop ext config model l c leftover hint linesCount i = (?r, i)"
      by (subst moveDown_loop.simps) (simp add: Let_def)
    with True 1(2,3) show ?thesis
      by (intro exI[of _ i]) auto
  next
    case False
    show ?thesis
    proof (cases "i < 10 \<and> l + (i + 1) < getLineCount model")
      case stop: False
      with False have "moveDown_loop ext config model l c leftover hint linesCount i = (?r, i)"
        by (subst moveDown_loop.simps) (auto simp add: Let_def)
      with stop 1(2,3) show ?thesis
        by (intro exI[of _ i]) auto
    next
      case again: True
      with False have step: "moveDown_loop ext config model l c leftover hint linesCount i
          = moveDown_loop ext config model l c leftover hint linesCount (i + 1)"
        by (subst moveDown_loop.simps) (simp add: Let_def)
      from again 1(2) have "0 \<le> i + 1" "i + 1 \<le> 10" by simp_all
      from "1.IH"[OF refl refl _ again this] False
      obtain n where n: "i + 1 \<le> n" "n \<le> 10"
        "moveDown_loop ext config model l c leftover hint linesCount (i + 1)
           = (attempt ext config model l c leftover hint linesCount n, n)"
        "\<forall>j. i + 1 \<le> j \<and> j < n \<longrightarrow>
           normalizedLine model (attempt ext config model l c leftover hint linesCount j) \<le> l"
        "\<forall>j. i + 1 < j \<and> j \<le> n \<longrightarrow> l + j < getLineCount model"
        "normalizedLine model (attempt ext config model l c leftover hint linesCount n) > l
          \<or> n = 10 \<or> \<not> l + (n + 1) < getLineCount model"
        by auto
      have fails: "\<forall>j. i \<le> j \<and> j < n \<longrightarrow>
           normalizedLine model (attempt ext config model l c leftover hint linesCount j) \<le> l"
      proof (intro allI impI)
        fix j assume j: "i \<le> j \<and> j < n"
        show "normalizedLine model (attempt ext config model l c leftover hint linesCount j) \<le> l"
        proof (cases "j = i")
          case True with False show ?thesis by simp
        next
          case False with j n(4) show ?thesis by simp
        qed
      qed
      have lines: "\<forall>j. i < j \<and> j \<le> n \<longrightarrow> l + j < getLineCount model"
      proof (intro allI impI)
        fix j assume j: "i < j \<and> j \<le> n"
        show "l + j < getLineCount model"
        proof (cases "j = i + 1")
          case True with again show ?thesis by simp
        next
          case False with j n(5) show ?thesis by simp
        qed
      qed
      from n(1,2,3,6) step fails lines show ?thesis
        by (intro exI[of _ n]) auto
    qed
  qed
qed

text \<open>
  C3. \<open>moveDown\<close> starts from the active position, or from the rightmost edge of the
  selection when it leaves a selection, and makes at most 10 retry attempts beyond the
  first: for some counter \<open>n\<close> between 0 and 10 the state it returns is \<open>cursor.move\<close>
  applied to the result of the attempt with counter \<open>n\<close>, attempt \<open>j\<close> starts from line
  \<open>lineNumber + j\<close>, one line below the previous one, every earlier attempt normalized
  (affinity \<open>None\<close>) to a line not below the starting line, and the loop stops at the
  first attempt that normalizes strictly below the starting line, or at counter 10, or
  when the next starting line would not lie before the last line. The loop function is
  total, so the loop always terminates, and the result of the last attempt is returned
  even if no attempt got past the starting line.
\<close>

theorem moveDown_retry_bounded:
  assumes start: "(l, c, leftover, hint) =
      (if hasSelection cursor (virtualSpace config) \<and> \<not> inSel
       then (lineNumber (fst (rightmostPosition cursor)),
             column (fst (rightmostPosition cursor)), snd (rightmostPosition cursor), None)
       else (lineNumber (position cursor), column (position cursor),
             SingleCursorState.leftoverVisibleColumns cursor,
             SingleCursorState.columnHint cursor))"
  shows "\<exists>n. 0 \<le> n \<and> n \<le> 10
     \<and> moveDown_loop ext config model l c leftover hint linesCount 0
         = (down ext config model (l + n) c leftover hint linesCount True, n)
     \<and> moveDown ext config model cursor inSel linesCount
         = move cursor inSel
             (lineNumber (down ext config model (l + n) c leftover hint linesCount True))
             (column (down ext config model (l + n) c leftover hint linesCount True))
             (CursorPosition.leftoverVisibleColumns
                (down ext config model (l + n) c leftover hint linesCount True))
             (CursorPosition.columnHint
                (down ext config model (l + n) c leftover hint linesCount True))
     \<and> (\<forall>j. 0 \<le> j \<and> j < n \<longrightarrow>
           normalizedLine model (down ext config model (l + j) c leftover hint linesCount True) \<le> l)
     \<and> (\<forall>j. 0 < j \<and> j \<le> n \<longrightarrow> l + j < getLineCount model)
     \<and> (normalizedLine model (down ext config model (l + n) c leftover hint linesCount True) > l
        \<or> n = 10 \<or> \<not> l + (n + 1) < getLineCount model)"
proof -
  from moveDown_loop_from[of 0 ext config model l c leftover hint linesCount]
  obtain n where n: "0 \<le> n" "n \<le> 10"
    "moveDown_loop ext config model l c leftover hint linesCount 0
       = (down ext config model (l + n) c leftover hint linesCount True, n)"
    "\<forall>j. 0 \<le> j \<and> j < n \<longrightarrow>
       normalizedLine model (down ext config model (l + j) c leftover hint linesCount True) \<le> l"
    "\<forall>j. 0 < j \<and> j \<le> n \<longrightarrow> l + j < getLineCount model"
    "normalizedLine model (down ext config model (l + n) c leftover hint linesCount True) > l
        \<or> n = 10 \<or> \<not> l + (n + 1) < getLineCount model"
    by auto
  have m: "moveDown ext config model cursor inSel linesCount
         = move cursor inSel
             (lineNumber (down ext config model (l + n) c leftover hint linesCount True))
             (column (down ext config model (l + n) c leftover hint linesCount True))
             (CursorPosition.leftoverVisibleColumns
                (down ext config model (l + n) c leftover hint linesCount True))
             (CursorPosition.columnHint
                (down ext config model (l + n) c leftover hint linesCount True))"
    unfolding moveDown_def Let_def start[symmetric] by (simp add: n(3))
  from n m show ?thesis by (intro exI[of _ n]) simp
qed

lemma stuckModel_simps:
  "getLineCount stuckModel = 20"
  "getLineContent stuckModel l = lineAt (replicate 20 ''x'') l"
  "getLineMinColumn stuckModel l = 1"
  "getLineMaxColumn stuckModel l = int (length (lineAt (replicate 20 ''x'') l)) + 1"
  "normalizePosition stuckModel p a =
     (if a = NoneAffinity then \<lparr> lineNumber = 1, column = column p \<rparr> else p)"
  by (simp_all add: stuckModel_def textModel_def)

lemma stuckModel_last_attempt:
  "down plainText (plainConfig False) stuckModel 11 1 0 None 1 True
     = \<lparr> lineNumber = 12, column = 1,
         CursorPosition.leftoverVisibleColumns = 0, CursorPosition.columnHint = Some 0 \<rparr>"
  by (simp add: down_def vertical_def Let_def stuckModel_simps plainText_simps stickyConfig_simps
      plainConfig_columnFromVisibleColumn lineAt_def clipRange_def)

text \<open>
  On \<open>stuckModel\<close> the loop makes all eleven attempts, and \<open>moveDown\<close> from \<open>(1,1)\<close>
  returns the result of the last one, on line 12.
\<close>

theorem moveDown_retry_bounded_witness:
  "moveDown_loop plainText (plainConfig False) stuckModel 1 1 0 None 1 0
     = (down plainText (plainConfig False) stuckModel (1 + 10) 1 0 None 1 True, 10)
   \<and> position (moveDown plainText (plainConfig False) stuckModel (cursorAt 1 1 0) False 1)
       = \<lparr> lineNumber = 12, column = 1 \<rparr>
   \<and> SingleCursorState.columnHint
        (moveDown plainText (plainConfig False) stuckModel (cursorAt 1 1 0) False 1) = Some 0"
proof -
  have start: "(1, 1, 0, None) =
      (if hasSelection (cursorAt 1 1 0) (virtualSpace (plainConfig False)) \<and> \<not> False
       then (lineNumber (fst (rightmostPosition (cursorAt 1 1 0))),
             column (fst (rightmostPosition (cursorAt 1 1 0))),
             snd (rightmostPosition (cursorAt 1 1 0)), None)
       else (lineNumber (position (cursorAt 1 1 0)), column (position (cursorAt 1 1 0)),
             SingleCursorState.leftoverVisibleColumns (cursorAt 1 1 0),
             SingleCursorState.columnHint (cursorAt 1 1 0)))"
    by (simp add: hasSelection_cursorAt cursorAt_simps)
  from moveDown_retry_bounded[OF start, of plainText stuckModel 1]
  obtain n where n: "0 \<le> n" "n \<le> 10"
    "moveDown_loop plainText (plainConfig False) stuckModel 1 1 0 None 1 0
       = (down plainText (plainConfig False) stuckModel (1 + n) 1 0 None 1 True, n)"
    "moveDown plainText (plainConfig False) stuckModel (cursorAt 1 1 0) False 1
         = move (cursorAt 1 1 0) False
             (lineNumber (down plainText (plainConfig False) stuckModel (1 + n) 1 0 None 1 True))
             (column (down plainText (plainConfig False) stuckModel (1 + n) 1 0 None 1 True))
             (CursorPosition.leftoverVisibleColumns
                (down plainText (plainConfig False) stuckModel (1 + n) 1 0 None 1 True))
             (CursorPosition.columnHint
                (down plainText (plainConfig False) stuckModel (1 + n) 1 0 None 1 True))"
    "normalizedLine stuckModel (down plainText (plainConfig False) stuckModel (1 + n) 1 0 None 1 True) > 1
        \<or> n = 10 \<or> \<not> 1 + (n + 1) < getLineCount stuckModel"
    by blast
  from n(2,5) have "n = 10" by (simp add: stuckModel_simps)
  with n(3,4) show ?thesis by (simp add: stuckModel_last_attempt move_fields)
qed

subsection \<open>Blank-line navigation\<close>

lemma whileBlankUp_spec:
  "whileBlankUp model l \<le> l
   \<and> (1 \<le> l \<longrightarrow> 1 \<le> whileBlankUp model l)
   \<and> (\<forall>j. whileBlankUp model l < j \<and> j \<le> l \<longrightarrow> isBlankLine model j)
   \<and> (whileBlankUp model l \<le> 1 \<or> \<not> isBlankLine model (whileBlankUp model l))"
proof (induction model l rule: whileBlankUp.induct)
  case (1 model l)
  show ?case
  proof (cases "l > 1 \<and> isBlankLine model l")
    case True
    then have eq: "whileBlankUp model l = whileBlankUp model (l - 1)"
      by (subst whileBlankUp.simps) simp
    let ?w = "whileBlankUp model (l - 1)"
    from "1.IH"[OF True] have ih:
      "?w \<le> l - 1" "1 \<le> l - 1 \<longrightarrow> 1 \<le> ?w"
      "\<forall>j. ?w < j \<and> j \<le> l - 1 \<longrightarrow> isBlankLine model j"
      "?w \<le> 1 \<or> \<not> isBlankLine model ?w"
      by blast+
    have a: "?w \<le> l" using ih(1) by linarith
    have b: "1 \<le> l \<longrightarrow> 1 \<le> ?w" using ih(2) True by linarith
    have c: "\<forall>j. ?w < j \<and> j \<le> l \<longrightarrow> isBlankLine model j"
    proof (intro allI impI)
      fix j assume j: "?w < j \<and> j \<le> l"
      show "isBlankLine model j"
      proof (cases "j = l")
        case True with \<open>l > 1 \<and> isBlankLine model l\<close> show ?thesis by simp
      next
        case False
        with j have "?w < j \<and> j \<le> l - 1" by linarith
        with ih(3) show ?thesis by blast
      qed
    qed
    from a b c ih(4) show ?thesis unfolding eq by blast
  next
    case False
    then have eq: "whileBlankUp model l = l" by (subst whileBlankUp.simps) auto
    have "\<forall>j. l < j \<and> j \<le> l \<longrightarrow> isBlankLine model j" by linarith
    moreover from False have "l \<le> 1 \<or> \<not> isBlankLine model l" by auto
    ultimately show ?thesis unfolding eq by simp
  qed
qed

lemma whileNonBlankUp_spec:
  "whileNonBlankUp model l \<le> l
   \<and> (1 \<le> l \<longrightarrow> 1 \<le> whileNonBlankUp model l)
   \<and> (\<forall>j. whileNonBlankUp model l < j \<and> j \<le> l \<longrightarrow> \<not> isBlankLine model j)
   \<and> (whileNonBlankUp model l \<le> 1 \<or> isBlankLine model (whileNonBlankUp model l))"
proof (induction model l rule: whileNonBlankUp.induct)
  case (1 model l)
  show ?case
  proof (cases "l > 1 \<and> \<not> isBlankLine model l")
    case True
    then have eq: "whileNonBlankUp model l = whileNonBlankUp model (l - 1)"
      by (subst whileNonBlankUp.simps) simp
    let ?w = "whileNonBlankUp model (l - 1)"
    from "1.IH"[OF True] have ih:
      "?w \<le> l - 1" "1 \<le> l - 1 \<longrightarrow> 1 \<le> ?w"
      "\<forall>j. ?w < j \<and> j \<le> l - 1 \<longrightarrow> \<not> isBlankLine model j"
      "?w \<le> 1 \<or> isBlankLine model ?w"
      by blast+
    have a: "?w \<le> l" using ih(1) by linarith
    have b: "1 \<le> l \<longrightarrow> 1 \<le> ?w" using ih(2) True by linarith
    have c: "\<forall>j. ?w < j \<and> j \<le> l \<longrightarrow> \<not> isBlankLine model j"
    proof (intro allI impI)
      fix j assume j: "?w < j \<and> j \<le> l"
      show "\<not> isBlankLine model j"
      proof (cases "j = l")
        case True with \<open>l > 1 \<and> \<not> isBlankLine model l\<close> show ?thesis by simp
      next
        case False
        with j have "?w < j \<and> j \<le> l - 1" by linarith
        with ih(3) show ?thesis by blast
      qed
    qed
    from a b c ih(4) show ?thesis unfolding eq by blast
  next
    case False
    then have eq: "whileNonBlankUp model l = l" by (subst whileNonBlankUp.simps) auto
    have "\<forall>j. l < j \<and> j \<le> l \<longrightarrow> \<not> isBlankLine model j" by linarith
    moreover from False have "l \<le> 1 \<or> isBlankLine model l" by auto
    ultimately show ?thesis unfolding eq by simp
  qed
qed

lemma whileBlankDown_spec:
  "l \<le> whileBlankDown model n l
   \<and> (l \<le> n \<longrightarrow> whileBlankDown model n l \<le> n)
   \<and> (\<forall>j. l \<le> j \<and> j < whileBlankDown model n l \<longrightarrow> isBlankLine model j)
   \<and> (n \<le> whileBlankDown model n l \<or> \<not> isBlankLine model (whileBlankDown model n l))"
proof (induction model n l rule: whileBlankDown.induct)
  case (1 model n l)
  show ?case
  proof (cases "l < n \<and> isBlankLine model l")
    case True
    then have eq: "whileBlankDown model n l = whileBlankDown model n (l + 1)"
      by (subst whileBlankDown.simps) simp
    let ?w = "whileBlankDown model n (l + 1)"
    from "1.IH"[OF True] have ih:
      "l + 1 \<le> ?w" "l + 1 \<le> n \<longrightarrow> ?w \<le> n"
      "\<forall>j. l + 1 \<le> j \<and> j < ?w \<longrightarrow> isBlankLine model j"
      "n \<le> ?w \<or> \<not> isBlankLine model ?w"
      by blast+
    have a: "l \<le> ?w" using ih(1) by linarith
    have b: "l \<le> n \<longrightarrow> ?w \<le> n" using ih(2) True by linarith
    have c: "\<forall>j. l \<le> j \<and> j < ?w \<longrightarrow> isBlankLine model j"
    proof (intro allI impI)
      fix j assume j: "l \<le> j \<and> j < ?w"
      show "isBlankLine model j"
      proof (cases "j = l")
        case True with \<open>l < n \<and> isBlankLine model l\<close> show ?thesis by simp
      next
        case False
        with j have "l + 1 \<le> j \<and> j < ?w" by linarith
        with ih(3) show ?thesis by blast
      qed
    qed
    from a b c ih(4) show ?thesis unfolding eq by blast
  next
    case False
    then have eq: "whileBlankDown model n l = l" by (subst whileBlankDown.simps) auto
    have "\<forall>j. l \<le> j \<and> j < l \<longrightarrow> isBlankLine model j" by linarith
    moreover from False have "n \<le> l \<or> \<not> isBlankLine model l" by auto
    ultimately show ?thesis unfolding eq by simp
  qed
qed

lemma whileNonBlankDown_spec:
  "l \<le> whileNonBlankDown model n l
   \<and> (l \<le> n \<longrightarrow> whileNonBlankDown model n l \<le> n)
   \<and> (\<forall>j. l \<le> j \<and> j < whileNonBlankDown model n l \<longrightarrow> \<not> isBlankLine model j)
   \<and> (n \<le> whileNonBlankDown model n l \<or> isBlankLine model (whileNonBlankDown model n l))"
proof (induction model n l rule: whileNonBlankDown.induct)
  case (1 model n l)
  show ?case
  proof (cases "l < n \<and> \<not> isBlankLine model l")
    case True
    then have eq: "whileNonBlankDown model n l = whileNonBlankDown model n (l + 1)"
      by (subst whileNonBlankDown.simps) simp
    let ?w = "whileNonBlankDown model n (l + 1)"
    from "1.IH"[OF True] have ih:
      "l + 1 \<le> ?w" "l + 1 \<le> n \<longrightarrow> ?w \<le> n"
      "\<forall>j. l + 1 \<le> j \<and> j < ?w \<longrightarrow> \<not> isBlankLine model j"
      "n \<le> ?w \<or> isBlankLine model ?w"
      by blast+
    have a: "l \<le> ?w" using ih(1) by linarith
    have b: "l \<le> n \<longrightarrow> ?w \<le> n" using ih(2) True by linarith
    have c: "\<forall>j. l \<le> j \<and> j < ?w \<longrightarrow> \<not> isBlankLine model j"
    proof (intro allI impI)
      fix j assume j: "l \<le> j \<and> j < ?w"
      show "\<not> isBlankLine model j"
      proof (cases "j = l")
        case True with \<open>l < n \<and> \<not> isBlankLine model l\<close> show ?thesis by simp
      next
        case False
        with j have "l + 1 \<le> j \<and> j < ?w" by linarith
        with ih(3) show ?thesis by blast
      qed
    qed
    from a b c ih(4) show ?thesis unfolding eq by blast
  next
    case False
    then have eq: "whileNonBlankDown model n l = l" by (subst whileNonBlankDown.simps) auto
    have "\<forall>j. l \<le> j \<and> j < l \<longrightarrow> \<not> isBlankLine model j" by linarith
    moreover from False have "n \<le> l \<or> isBlankLine model l" by auto
    ultimately show ?thesis unfolding eq by simp
  qed
qed

lemma paragraphs_blank:
  "\<not> isBlankLine paragraphs 1" "isBlankLine paragraphs 2" "\<not> isBlankLine paragraphs 3"
  "\<not> isBlankLine paragraphs 4" "isBlankLine paragraphs 5" "getLineCount paragraphs = 5"
  "getLineMinColumn paragraphs l = 1"
  by (simp_all add: paragraphs_def isBlankLine_def textModel_def lineAt_def isWhitespace_def)

lemma paragraphs_prev: "whileNonBlankUp paragraphs (whileBlankUp paragraphs 3) = 2"
proof -
  have "whileBlankUp paragraphs 3 = 3"
    by (subst whileBlankUp.simps) (simp add: paragraphs_blank)
  moreover have "whileNonBlankUp paragraphs 3 = whileNonBlankUp paragraphs 2"
    by (subst whileNonBlankUp.simps) (simp add: paragraphs_blank)
  moreover have "whileNonBlankUp paragraphs 2 = 2"
    by (subst whileNonBlankUp.simps) (simp add: paragraphs_blank)
  ultimately show ?thesis by simp
qed

lemma paragraphs_next: "whileNonBlankDown paragraphs 5 (whileBlankDown paragraphs 5 3) = 5"
proof -
  have "whileBlankDown paragraphs 5 3 = 3"
    by (subst whileBlankDown.simps) (simp add: paragraphs_blank)
  moreover have "whileNonBlankDown paragraphs 5 3 = whileNonBlankDown paragraphs 5 4"
    by (subst whileNonBlankDown.simps) (simp add: paragraphs_blank)
  moreover have "whileNonBlankDown paragraphs 5 4 = whileNonBlankDown paragraphs 5 5"
    by (subst whileNonBlankDown.simps) (simp add: paragraphs_blank)
  moreover have "whileNonBlankDown paragraphs 5 5 = 5"
    by (subst whileNonBlankDown.simps) simp
  ultimately show ?thesis by simp
qed

text \<open>
  C9. \<open>moveToPrevBlankLine\<close> and \<open>moveToNextBlankLine\<close> first skip the run of blank
  lines containing the line of the cursor (up to line \<open>m\<close>), then the following run of
  non-blank lines, and stop on line \<open>L\<close>, the first blank line found or the buffer
  edge (line 1, or the last line); a line is blank exactly when the model reports 0 as
  its first non-whitespace column; the resulting column is the minimum column of line
  \<open>L\<close>. On the content \<open>["a", "", "b", "c", ""]\<close>, from line 3, the next-blank motion
  lands on line 5 and the previous-blank motion on line 2.
\<close>

theorem blank_line_navigation:
  "(isBlankLine model l \<longleftrightarrow> getLineFirstNonWhitespaceColumn model l = 0)
   \<and> (\<exists>m L. position (moveToPrevBlankLine config model cursor inSel)
                = \<lparr> lineNumber = L, column = getLineMinColumn model L \<rparr>
        \<and> L \<le> m \<and> m \<le> lineNumber (position cursor)
        \<and> (1 \<le> lineNumber (position cursor) \<longrightarrow> 1 \<le> L)
        \<and> (\<forall>j. m < j \<and> j \<le> lineNumber (position cursor) \<longrightarrow> isBlankLine model j)
        \<and> (m \<le> 1 \<or> \<not> isBlankLine model m)
        \<and> (\<forall>j. L < j \<and> j \<le> m \<longrightarrow> \<not> isBlankLine model j)
        \<and> (L \<le> 1 \<or> isBlankLine model L))
   \<and> (\<exists>m L. position (moveToNextBlankLine config model cursor inSel)
                = \<lparr> lineNumber = L, column = getLineMinColumn model L \<rparr>
        \<and> lineNumber (position cursor) \<le> m \<and> m \<le> L
        \<and> (lineNumber (position cursor) \<le> getLineCount model \<longrightarrow> L \<le> getLineCount model)
        \<and> (\<forall>j. lineNumber (position cursor) \<le> j \<and> j < m \<longrightarrow> isBlankLine model j)
        \<and> (getLineCount model \<le> m \<or> \<not> isBlankLine model m)
        \<and> (\<forall>j. m \<le> j \<and> j < L \<longrightarrow> \<not> isBlankLine model j)
        \<and> (getLineCount model \<le> L \<or> isBlankLine model L))
   \<and> position (moveToNextBlankLine config paragraphs (cursorAt 3 1 0) inSel)
       = \<lparr> lineNumber = 5, column = 1 \<rparr>
   \<and> position (moveToPrevBlankLine config paragraphs (cursorAt 3 1 0) inSel)
       = \<lparr> lineNumber = 2, column = 1 \<rparr>"
proof -
  let ?l0 = "lineNumber (position cursor)"
  let ?n = "getLineCount model"
  let ?m = "whileBlankUp model ?l0"
  let ?L = "whileNonBlankUp model ?m"
  let ?m' = "whileBlankDown model ?n ?l0"
  let ?L' = "whileNonBlankDown model ?n ?m'"
  have blank: "isBlankLine model l \<longleftrightarrow> getLineFirstNonWhitespaceColumn model l = 0"
    by (simp add: isBlankLine_def)
  have p: "position (moveToPrevBlankLine config model cursor inSel)
        = \<lparr> lineNumber = ?L, column = getLineMinColumn model ?L \<rparr>"
    by (simp add: moveToPrevBlankLine_def Let_def move_fields)
  note s1 = whileBlankUp_spec[of model ?l0]
  note s2 = whileNonBlankUp_spec[of model ?m]
  from s1 s2 have lo: "1 \<le> ?l0 \<longrightarrow> 1 \<le> ?L" by linarith
  have prev: "position (moveToPrevBlankLine config model cursor inSel)
                = \<lparr> lineNumber = ?L, column = getLineMinColumn model ?L \<rparr>
        \<and> ?L \<le> ?m \<and> ?m \<le> ?l0 \<and> (1 \<le> ?l0 \<longrightarrow> 1 \<le> ?L)
        \<and> (\<forall>j. ?m < j \<and> j \<le> ?l0 \<longrightarrow> isBlankLine model j)
        \<and> (?m \<le> 1 \<or> \<not> isBlankLine model ?m)
        \<and> (\<forall>j. ?L < j \<and> j \<le> ?m \<longrightarrow> \<not> isBlankLine model j)
        \<and> (?L \<le> 1 \<or> isBlankLine model ?L)"
    using p lo s1[THEN conjunct1] s1[THEN conjunct2, THEN conjunct2]
      s2[THEN conjunct1] s2[THEN conjunct2, THEN conjunct2]
    by (intro conjI) (rule p, simp_all)
  have q: "position (moveToNextBlankLine config model cursor inSel)
        = \<lparr> lineNumber = ?L', column = getLineMinColumn model ?L' \<rparr>"
    by (simp add: moveToNextBlankLine_def Let_def move_fields)
  note t1 = whileBlankDown_spec[of ?l0 model ?n]
  note t2 = whileNonBlankDown_spec[of ?m' model ?n]
  from t1 t2 have hi: "?l0 \<le> ?n \<longrightarrow> ?L' \<le> ?n" by linarith
  have nxt: "position (moveToNextBlankLine config model cursor inSel)
                = \<lparr> lineNumber = ?L', column = getLineMinColumn model ?L' \<rparr>
        \<and> ?l0 \<le> ?m' \<and> ?m' \<le> ?L' \<and> (?l0 \<le> ?n \<longrightarrow> ?L' \<le> ?n)
        \<and> (\<forall>j. ?l0 \<le> j \<and> j < ?m' \<longrightarrow> isBlankLine model j)
        \<and> (?n \<le> ?m' \<or> \<not> isBlankLine model ?m')
        \<and> (\<forall>j. ?m' \<le> j \<and> j < ?L' \<longrightarrow> \<not> isBlankLine model j)
        \<and> (?n \<le> ?L' \<or> isBlankLine model ?L')"
    using q hi t1[THEN conjunct1] t1[THEN conjunct2, THEN conjunct2]
      t2[THEN conjunct1] t2[THEN conjunct2, THEN conjunct2]
    by (intro conjI) (rule q, simp_all)
  have ex1: "position (moveToNextBlankLine config paragraphs (cursorAt 3 1 0) inSel)
       = \<lparr> lineNumber = 5, column = 1 \<rparr>"
    by (simp add: moveToNextBlankLine_def Let_def move_fields cursorAt_def paragraphs_blank(6,7)
        paragraphs_next)
  have ex2: "position (moveToPrevBlankLine config paragraphs (cursorAt 3 1 0) inSel)
       = \<lparr> lineNumber = 2, column = 1 \<rparr>"
    by (simp add: moveToPrevBlankLine_def Let_def move_fields cursorAt_def paragraphs_blank(6,7)
        paragraphs_prev)
  show ?thesis
  proof (intro conjI)
    show "isBlankLine model l \<longleftrightarrow> getLineFirstNonWhitespaceColumn model l = 0" by (rule blank)
    show "\<exists>m L. position (moveToPrevBlankLine config model cursor inSel)
                = \<lparr> lineNumber = L, column = getLineMinColumn model L \<rparr>
        \<and> L \<le> m \<and> m \<le> lineNumber (position cursor)
        \<and> (1 \<le> lineNumber (position cursor) \<longrightarrow> 1 \<le> L)
        \<and> (\<forall>j. m < j \<and> j \<le> lineNumber (position cursor) \<longrightarrow> isBlankLine model j)
        \<and> (m \<le> 1 \<or> \<not> isBlankLine model m)
        \<and> (\<forall>j. L < j \<and> j \<le> m \<longrightarrow> \<not> isBlankLine model j)
        \<and> (L \<le> 1 \<or> isBlankLine model L)"
      by (rule exI[of _ ?m], rule exI[of _ ?L]) (rule prev)
    show "\<exists>m L. position (moveToNextBlankLine config model cursor inSel)
                = \<lparr> lineNumber = L, column = getLineMinColumn model L \<rparr>
        \<and> lineNumber (position cursor) \<le> m \<and> m \<le> L
        \<and> (lineNumber (position cursor) \<le> getLineCount model \<longrightarrow> L \<le> getLineCount model)
        \<and> (\<forall>j. lineNumber (position cursor) \<le> j \<and> j < m \<longrightarrow> isBlankLine model j)
        \<and> (getLineCount model \<le> m \<or> \<not> isBlankLine model m)
        \<and> (\<forall>j. m \<le> j \<and> j < L \<longrightarrow> \<not> isBlankLine model j)
        \<and> (getLineCount model \<le> L \<or> isBlankLine model L)"
      by (rule exI[of _ ?m'], rule exI[of _ ?L']) (rule nxt)
    show "position (moveToNextBlankLine config paragraphs (cursorAt 3 1 0) inSel)
       = \<lparr> lineNumber = 5, column = 1 \<rparr>" by (rule ex1)
    show "position (moveToPrevBlankLine config paragraphs (cursorAt 3 1 0) inSel)
       = \<lparr> lineNumber = 2, column = 1 \<rparr>" by (rule ex2)
  qed
qed

theorem blank_line_navigation_witness:
  "isBlankLine paragraphs 5 \<and> \<not> isBlankLine paragraphs 4 \<and> \<not> isBlankLine paragraphs 3
   \<and> isBlankLine paragraphs 2
   \<and> position (moveToNextBlankLine (plainConfig False) paragraphs (cursorAt 3 1 0) False)
       = \<lparr> lineNumber = 5, column = 1 \<rparr>
   \<and> position (moveToPrevBlankLine (plainConfig False) paragraphs (cursorAt 3 1 0) False)
       = \<lparr> lineNumber = 2, column = 1 \<rparr>"
proof -
  from blank_line_navigation
    [where config = "plainConfig False" and inSel = False and model = paragraphs
       and cursor = "cursorAt 3 1 0" and l = 5]
  have "position (moveToNextBlankLine (plainConfig False) paragraphs (cursorAt 3 1 0) False)
          = \<lparr> lineNumber = 5, column = 1 \<rparr>"
    "position (moveToPrevBlankLine (plainConfig False) paragraphs (cursorAt 3 1 0) False)
          = \<lparr> lineNumber = 2, column = 1 \<rparr>"
    by simp_all
  with paragraphs_blank(1-5) show ?thesis by simp
qed

subsection \<open>Right, then left\<close>

lemma moveRight_plain:
  assumes "\<not> hasSelection cursor False" and "\<not> virtualSpace config"
    and "\<not> stickyTabStops config"
    and "\<forall>p a. normalizePosition model p a = p"
    and "getLineMinColumn model (lineNumber (position cursor)) \<le> column (position cursor)"
    and "column (position cursor) \<le> getLineMaxColumn model (lineNumber (position cursor))"
  shows "moveRight ext config model cursor False 1 =
     (let r = rightPosition ext model (lineNumber (position cursor)) (column (position cursor))
      in move cursor False (lineNumber r) (column r) 0 None)"
  using assms
  by (simp add: moveRight_def moveRightWithoutVirtualSpace_def right_def Let_def
      Position_delta_def clipPositionColumn_def clipRange_inside)

lemma moveLeft_plain:
  assumes "\<not> hasSelection cursor False" and "\<not> virtualSpace config"
    and "\<not> stickyTabStops config"
    and "\<forall>p a. normalizePosition model p a = p"
    and "getLineMinColumn model (lineNumber (position cursor)) \<le> column (position cursor)"
    and "column (position cursor) \<le> getLineMaxColumn model (lineNumber (position cursor))"
  shows "moveLeft ext config model cursor False 1 =
     (let p = leftPosition ext model (position cursor)
      in move cursor False (lineNumber p) (column p) 0 None)"
  using assms
  by (simp add: moveLeft_def moveLeftWithoutVirtualSapce_def left_def Let_def
      Position_delta_def clipPositionColumn_def clipRange_inside Position_rebuild)

text \<open>
  C2, as the code has it. For every valid cursor position with no selection, with
  virtual space and sticky tab stops disabled and \<open>columnCount = 1\<close>, on a model whose
  normalization leaves positions where they are, whose lines have a minimum column not
  above the maximum column, and whose character-length queries agree at the column of
  the cursor (the character that \<open>nextCharLength\<close> reports there is at least one unit
  long and ends within the line, and \<open>prevCharLength\<close> reports the same length at its
  end): \<open>moveRight\<close> followed by \<open>moveLeft\<close> returns the cursor to its original
  position unless it stood at the absolute buffer end; at the absolute buffer end
  \<open>moveRight\<close> is a no-op, and at the absolute buffer start \<open>moveLeft\<close> is a no-op.
\<close>

theorem moveRight_then_moveLeft:
  assumes sel: "\<not> hasSelection cursor False"
    and vs: "\<not> virtualSpace config" and sticky: "\<not> stickyTabStops config"
    and norm: "\<forall>p a. normalizePosition model p a = p"
    and cols: "\<forall>k. getLineMinColumn model k \<le> getLineMaxColumn model k"
    and chars: "column (position cursor) < getLineMaxColumn model (lineNumber (position cursor))
        \<longrightarrow>
        1 \<le> nextCharLength ext (getLineContent model (lineNumber (position cursor)))
               (column (position cursor) - 1)
        \<and> column (position cursor)
            + nextCharLength ext (getLineContent model (lineNumber (position cursor)))
                (column (position cursor) - 1)
            \<le> getLineMaxColumn model (lineNumber (position cursor))
        \<and> prevCharLength ext (getLineContent model (lineNumber (position cursor)))
             (column (position cursor)
              + nextCharLength ext (getLineContent model (lineNumber (position cursor)))
                  (column (position cursor) - 1) - 1)
            = nextCharLength ext (getLineContent model (lineNumber (position cursor)))
                (column (position cursor) - 1)"
    and line: "1 \<le> lineNumber (position cursor)"
      "lineNumber (position cursor) \<le> getLineCount model"
    and col: "getLineMinColumn model (lineNumber (position cursor)) \<le> column (position cursor)"
      "column (position cursor) \<le> getLineMaxColumn model (lineNumber (position cursor))"
  shows "(\<not> (lineNumber (position cursor) = getLineCount model
            \<and> column (position cursor) = getLineMaxColumn model (lineNumber (position cursor)))
          \<longrightarrow> position (moveLeft ext config model
                          (moveRight ext config model cursor False 1) False 1)
                = position cursor)
       \<and> (lineNumber (position cursor) = getLineCount model
            \<and> column (position cursor) = getLineMaxColumn model (lineNumber (position cursor))
          \<longrightarrow> position (moveRight ext config model cursor False 1) = position cursor)
       \<and> (lineNumber (position cursor) = 1
            \<and> column (position cursor) = getLineMinColumn model 1
          \<longrightarrow> position (moveLeft ext config model cursor False 1) = position cursor)"
proof -
  let ?l = "lineNumber (position cursor)"
  let ?c = "column (position cursor)"
  let ?r = "rightPosition ext model ?l ?c"
  let ?mid = "moveRight ext config model cursor False 1"
  have right: "?mid = move cursor False (lineNumber ?r) (column ?r) 0 None"
    using moveRight_plain[OF sel vs sticky norm col] by (simp add: Let_def)
  have left0: "moveLeft ext config model cursor False 1
      = move cursor False (lineNumber (leftPosition ext model (position cursor)))
          (column (leftPosition ext model (position cursor))) 0 None"
    using moveLeft_plain[OF sel vs sticky norm col] by (simp add: Let_def)
  have atEnd: "?l = getLineCount model \<and> ?c = getLineMaxColumn model ?l
      \<longrightarrow> position ?mid = position cursor"
    by (simp add: right move_fields rightPosition_def)
  have atStart: "?l = 1 \<and> ?c = getLineMinColumn model 1
      \<longrightarrow> position (moveLeft ext config model cursor False 1) = position cursor"
    by (simp add: left0 move_fields leftPosition_def)
  have rt: "\<not> (?l = getLineCount model \<and> ?c = getLineMaxColumn model ?l)
      \<longrightarrow> position (moveLeft ext config model ?mid False 1) = position cursor"
  proof (intro impI, cases "?c < getLineMaxColumn model ?l")
    assume notEnd: "\<not> (?l = getLineCount model \<and> ?c = getLineMaxColumn model ?l)"
    case True
    let ?n = "nextCharLength ext (getLineContent model ?l) (?c - 1)"
    from chars True have n: "1 \<le> ?n" "?c + ?n \<le> getLineMaxColumn model ?l"
      "prevCharLength ext (getLineContent model ?l) (?c + ?n - 1) = ?n"
      by blast+
    have r: "?r = \<lparr> lineNumber = ?l, column = ?c + ?n \<rparr>"
      using True by (simp add: rightPosition_def)
    have pmid: "position ?mid = \<lparr> lineNumber = ?l, column = ?c + ?n \<rparr>"
      by (simp add: right r move_fields)
    have "moveLeft ext config model ?mid False 1 =
       (let p = leftPosition ext model (position ?mid)
        in move ?mid False (lineNumber p) (column p) 0 None)"
    proof (rule moveLeft_plain[OF _ vs sticky norm])
      show "\<not> hasSelection ?mid False" unfolding right by (rule hasSelection_move)
      show "getLineMinColumn model (lineNumber (position ?mid)) \<le> column (position ?mid)"
        using col(1) n(1) by (simp add: pmid)
      show "column (position ?mid) \<le> getLineMaxColumn model (lineNumber (position ?mid))"
        using n(2) by (simp add: pmid)
    qed
    moreover have "leftPosition ext model \<lparr> lineNumber = ?l, column = ?c + ?n \<rparr> = position cursor"
      using col(1) n(1,3) by (simp add: leftPosition_def Position_delta_def)
    ultimately show "position (moveLeft ext config model ?mid False 1) = position cursor"
      by (simp add: pmid Let_def move_fields)
  next
    assume notEnd: "\<not> (?l = getLineCount model \<and> ?c = getLineMaxColumn model ?l)"
    case False
    with col(2) have cmax: "?c = getLineMaxColumn model ?l" by simp
    with notEnd line(2) have more: "?l < getLineCount model" by simp
    have r: "?r = \<lparr> lineNumber = ?l + 1, column = getLineMinColumn model (?l + 1) \<rparr>"
      using False more by (simp add: rightPosition_def)
    have pmid: "position ?mid = \<lparr> lineNumber = ?l + 1, column = getLineMinColumn model (?l + 1) \<rparr>"
      by (simp add: right r move_fields)
    have "moveLeft ext config model ?mid False 1 =
       (let p = leftPosition ext model (position ?mid)
        in move ?mid False (lineNumber p) (column p) 0 None)"
    proof (rule moveLeft_plain[OF _ vs sticky norm])
      show "\<not> hasSelection ?mid False" unfolding right by (rule hasSelection_move)
      show "getLineMinColumn model (lineNumber (position ?mid)) \<le> column (position ?mid)"
        by (simp add: pmid)
      show "column (position ?mid) \<le> getLineMaxColumn model (lineNumber (position ?mid))"
        using cols by (simp add: pmid)
    qed
    moreover have "leftPosition ext model
        \<lparr> lineNumber = ?l + 1, column = getLineMinColumn model (?l + 1) \<rparr> = position cursor"
    proof -
      have "\<lparr> lineNumber = ?l, column = getLineMaxColumn model ?l \<rparr> = position cursor"
        using Position_rebuild[of "position cursor"] cmax by simp
      with line(1) show ?thesis by (simp add: leftPosition_def Let_def)
    qed
    ultimately show "position (moveLeft ext config model ?mid False 1) = position cursor"
      by (simp add: pmid Let_def move_fields)
  qed
  from rt atEnd atStart show ?thesis by blast
qed

lemma pairText_simps:
  "nextCharLength pairText content offset = (if offset = 1 then 2 else 1)"
  "prevCharLength pairText content offset = (if offset = 3 then 2 else 1)"
  by (simp_all add: pairText_def plainText_def)

text \<open>
  On \<open>["ab", "cd"]\<close> the round trip holds inside a line and across the line break, and
  the motions at the buffer edges are no-ops; on a line whose second and third unit
  form one character the round trip from column 2 passes over both units and back.
\<close>

theorem moveRight_then_moveLeft_witness:
  "position (moveLeft plainText (plainConfig False) (textModel [''ab'', ''cd''])
      (moveRight plainText (plainConfig False) (textModel [''ab'', ''cd'']) (cursorAt 1 2 0) False 1)
      False 1) = \<lparr> lineNumber = 1, column = 2 \<rparr>
   \<and> position (moveLeft plainText (plainConfig False) (textModel [''ab'', ''cd''])
      (moveRight plainText (plainConfig False) (textModel [''ab'', ''cd'']) (cursorAt 1 3 0) False 1)
      False 1) = \<lparr> lineNumber = 1, column = 3 \<rparr>
   \<and> position (moveRight plainText (plainConfig False) (textModel [''ab'', ''cd''])
      (cursorAt 2 3 0) False 1) = \<lparr> lineNumber = 2, column = 3 \<rparr>
   \<and> position (moveLeft plainText (plainConfig False) (textModel [''ab'', ''cd''])
      (cursorAt 1 1 0) False 1) = \<lparr> lineNumber = 1, column = 1 \<rparr>
   \<and> position (moveRight pairText (plainConfig False) (textModel [''aXYb''])
      (cursorAt 1 2 0) False 1) = \<lparr> lineNumber = 1, column = 4 \<rparr>
   \<and> position (moveLeft pairText (plainConfig False) (textModel [''aXYb''])
      (moveRight pairText (plainConfig False) (textModel [''aXYb'']) (cursorAt 1 2 0) False 1)
      False 1) = \<lparr> lineNumber = 1, column = 2 \<rparr>"
proof -
  have pair: "moveRight pairText (plainConfig False) (textModel [''aXYb'']) (cursorAt 1 2 0) False 1
      = move (cursorAt 1 2 0) False 1 4 0 None"
    by (simp add: moveRight_def moveRightWithoutVirtualSpace_def Let_def cursorAt_simps
        hasSelection_cursorAt stickyConfig_simps right_def rightPosition_def Position_delta_def
        clipPositionColumn_def clipRange_def textModel_simps pairText_simps lineAt_def)
  show ?thesis
    using moveRight_then_moveLeft
        [where cursor = "cursorAt 1 2 0" and config = "plainConfig False"
           and model = "textModel [''ab'', ''cd'']" and ext = plainText]
      moveRight_then_moveLeft
        [where cursor = "cursorAt 1 3 0" and config = "plainConfig False"
           and model = "textModel [''ab'', ''cd'']" and ext = plainText]
      moveRight_then_moveLeft
        [where cursor = "cursorAt 2 3 0" and config = "plainConfig False"
           and model = "textModel [''ab'', ''cd'']" and ext = plainText]
      moveRight_then_moveLeft
        [where cursor = "cursorAt 1 1 0" and config = "plainConfig False"
           and model = "textModel [''ab'', ''cd'']" and ext = plainText]
      moveRight_then_moveLeft
        [where cursor = "cursorAt 1 2 0" and config = "plainConfig False"
           and model = "textModel [''aXYb'']" and ext = pairText]
    by (simp add: cursorAt_simps hasSelection_cursorAt stickyConfig_simps textModel_simps
        plainText_simps pairText_simps lineAt_def pair move_fields)
qed

text \<open>
  At the absolute buffer end the composition need not be the identity: on the buffer
  \<open>["ab"]\<close>, from \<open>(1,3)\<close>, \<open>moveRight\<close> stays at \<open>(1,3)\<close> and the following
  \<open>moveLeft\<close> goes to \<open>(1,2)\<close>.
\<close>

theorem moveRight_then_moveLeft_counterexample:
  "position (cursorAt 1 3 0) = \<lparr> lineNumber = 1, column = 3 \<rparr>
   \<and> getLineCount (textModel [''ab'']) = 1 \<and> getLineMaxColumn (textModel [''ab'']) 1 = 3
   \<and> position (moveRight plainText (plainConfig False) (textModel [''ab'']) (cursorAt 1 3 0) False 1)
       = \<lparr> lineNumber = 1, column = 3 \<rparr>
   \<and> position (moveLeft plainText (plainConfig False) (textModel [''ab''])
         (moveRight plainText (plainConfig False) (textModel [''ab'']) (cursorAt 1 3 0) False 1)
         False 1)
       = \<lparr> lineNumber = 1, column = 2 \<rparr>"
proof -
  have r: "moveRight plainText (plainConfig False) (textModel [''ab'']) (cursorAt 1 3 0) False 1
      = move (cursorAt 1 3 0) False 1 3 0 None"
    by (simp add: moveRight_def moveRightWithoutVirtualSpace_def Let_def cursorAt_simps
        hasSelection_cursorAt stickyConfig_simps right_def rightPosition_def Position_delta_def
        clipPositionColumn_def clipRange_def textModel_simps lineAt_def)
  show ?thesis
    unfolding r
    by (simp add: moveLeft_def moveLeftWithoutVirtualSapce_def Let_def cursorAt_simps
        hasSelection_move stickyConfig_simps left_def leftPosition_def Position_delta_def
        clipPositionColumn_def clipRange_def textModel_simps plainText_simps lineAt_def
        move_fields)
qed

subsection \<open>Leftover visible columns\<close>

lemma move_leftoversKept:
  "0 \<le> selectionStartLeftoverVisibleColumns cursor \<Longrightarrow> 0 \<le> lo
   \<Longrightarrow> (\<not> virtualSpace config \<longrightarrow> lo = 0)
   \<Longrightarrow> leftoversKept config cursor inSel (move cursor inSel l c lo h)"
  by (simp add: move_fields)

lemma edge_leftover_nonneg:
  assumes "0 \<le> SingleCursorState.leftoverVisibleColumns cursor"
    and "0 \<le> selectionStartLeftoverVisibleColumns cursor"
  shows "0 \<le> snd (leftmostPosition cursor)" "0 \<le> snd (rightmostPosition cursor)"
  using assms by (simp_all add: leftmostPosition_def rightmostPosition_def)

lemma moveLeft_leftoversKept:
  assumes "0 \<le> SingleCursorState.leftoverVisibleColumns cursor"
    and "0 \<le> selectionStartLeftoverVisibleColumns cursor"
  shows "leftoversKept config cursor inSel (moveLeft ext config model cursor inSel n)"
proof (cases "virtualSpace config")
  case False
  then show ?thesis
    using assms(2)
    by (simp add: moveLeft_def moveLeftWithoutVirtualSapce_def Let_def move_fields)
next
  case True
  then show ?thesis
    using assms edge_leftover_nonneg[OF assms]
    by (auto simp add: moveLeft_def moveLeftWithVirtualSpace_def Let_def move_fields max_def)
qed

lemma moveRight_leftoversKept:
  assumes "0 \<le> SingleCursorState.leftoverVisibleColumns cursor"
    and "0 \<le> selectionStartLeftoverVisibleColumns cursor"
  shows "leftoversKept config cursor inSel (moveRight ext config model cursor inSel n)"
proof (cases "virtualSpace config")
  case False
  then show ?thesis
    using assms(2)
    by (simp add: moveRight_def moveRightWithoutVirtualSpace_def Let_def move_fields)
next
  case True
  then show ?thesis
    using assms edge_leftover_nonneg[OF assms]
    by (auto simp add: moveRight_def moveRightWithVirtualSpace_def Let_def move_fields max_def)
qed

lemma vertical_leftover:
  "CursorPosition.columnHint (vertical ext config model l0 c0 lo0 h0 newLine allow aff) \<noteq> None
   \<Longrightarrow> CursorPosition.leftoverVisibleColumns (vertical ext config model l0 c0 lo0 h0 newLine allow aff)
     = (case h0 of Some h \<Rightarrow> h
        | None \<Rightarrow> visibleColumnFromColumn ext (getLineContent model l0) c0 (tabSize config) + lo0)
       - visibleColumnFromColumn ext
           (getLineContent model (lineNumber (vertical ext config model l0 c0 lo0 h0 newLine allow aff)))
           (column (vertical ext config model l0 c0 lo0 h0 newLine allow aff)) (tabSize config)"
  by (auto simp add: vertical_def Let_def split: option.splits if_splits prod.splits)

lemma vertical_leftover_cleared:
  "CursorPosition.columnHint (vertical ext config model l0 c0 lo0 h0 newLine allow aff) = None
   \<Longrightarrow> CursorPosition.leftoverVisibleColumns
         (vertical ext config model l0 c0 lo0 h0 newLine allow aff) = 0"
  by (auto simp add: vertical_def Let_def split: option.splits if_splits prod.splits)

lemma moveUp_leftovers:
  "(case moveUp_start config cursor inSel of
      (l, c, lo, h) \<Rightarrow>
        SingleCursorState.leftoverVisibleColumns (moveUp ext config model cursor inSel k)
          = CursorPosition.leftoverVisibleColumns
              (vertical ext config model l c lo h (l - k) True (Some LeftOfInjectedText))
        \<and> selectionStartLeftoverVisibleColumns (moveUp ext config model cursor inSel k)
          = (if inSel then selectionStartLeftoverVisibleColumns cursor
             else CursorPosition.leftoverVisibleColumns
                    (vertical ext config model l c lo h (l - k) True (Some LeftOfInjectedText))))"
  by (simp add: moveUp_def up_def Let_def move_fields)

lemma moveDown_leftovers:
  "(case moveDown_start config cursor inSel of
      (l, c, lo, h) \<Rightarrow>
        (\<exists>i. 0 \<le> i \<and> i \<le> 10
          \<and> SingleCursorState.leftoverVisibleColumns (moveDown ext config model cursor inSel k)
              = CursorPosition.leftoverVisibleColumns
                  (vertical ext config model (l + i) c lo h (l + i + k) True
                     (Some RightOfInjectedText))
          \<and> selectionStartLeftoverVisibleColumns (moveDown ext config model cursor inSel k)
              = (if inSel then selectionStartLeftoverVisibleColumns cursor
                 else CursorPosition.leftoverVisibleColumns
                        (vertical ext config model (l + i) c lo h (l + i + k) True
                           (Some RightOfInjectedText)))))"
proof -
  obtain l c lo h where s: "moveDown_start config cursor inSel = (l, c, lo, h)"
    by (cases "moveDown_start config cursor inSel") auto
  from moveDown_loop_from[of 0 ext config model l c lo h k]
  obtain i where i: "0 \<le> i" "i \<le> 10"
    "moveDown_loop ext config model l c lo h k 0
       = (down ext config model (l + i) c lo h k True, i)"
    by auto
  have m: "moveDown ext config model cursor inSel k
      = move cursor inSel
          (lineNumber (down ext config model (l + i) c lo h k True))
          (column (down ext config model (l + i) c lo h k True))
          (CursorPosition.leftoverVisibleColumns (down ext config model (l + i) c lo h k True))
          (CursorPosition.columnHint (down ext config model (l + i) c lo h k True))"
    unfolding moveDown_def Let_def s by (simp add: i(3))
  show ?thesis
    unfolding s using i(1,2)
    by (auto simp add: m move_fields down_def intro!: exI[of _ i])
qed

lemma translate_leftovers:
  "SingleCursorState.leftoverVisibleColumns (translateUp ext config model cursor)
     = CursorPosition.leftoverVisibleColumns
         (vertical ext config model (positionLineNumber (selection cursor))
            (positionColumn (selection cursor))
            (SingleCursorState.leftoverVisibleColumns cursor)
            (SingleCursorState.columnHint cursor)
            (positionLineNumber (selection cursor) - 1) False (Some LeftOfInjectedText))"
  "selectionStartLeftoverVisibleColumns (translateUp ext config model cursor)
     = CursorPosition.leftoverVisibleColumns
         (vertical ext config model (selectionStartLineNumber (selection cursor))
            (selectionStartColumn (selection cursor))
            (selectionStartLeftoverVisibleColumns cursor)
            (SingleCursorState.columnHint cursor)
            (selectionStartLineNumber (selection cursor) - 1) False (Some LeftOfInjectedText))"
  "SingleCursorState.leftoverVisibleColumns (translateDown ext config model cursor)
     = CursorPosition.leftoverVisibleColumns
         (vertical ext config model (positionLineNumber (selection cursor))
            (positionColumn (selection cursor))
            (SingleCursorState.leftoverVisibleColumns cursor)
            (SingleCursorState.columnHint cursor)
            (positionLineNumber (selection cursor) + 1) False (Some RightOfInjectedText))"
  "selectionStartLeftoverVisibleColumns (translateDown ext config model cursor)
     = CursorPosition.leftoverVisibleColumns
         (vertical ext config model (selectionStartLineNumber (selection cursor))
            (selectionStartColumn (selection cursor))
            (selectionStartLeftoverVisibleColumns cursor)
            (SingleCursorState.columnHint cursor)
            (selectionStartLineNumber (selection cursor) + 1) False (Some RightOfInjectedText))"
  by (simp_all add: translateUp_def translateDown_def up_def down_def Let_def)

text \<open>
  C4, as the code has it. For \<open>moveLeft\<close>, \<open>moveRight\<close>, \<open>moveToBeginningOfLine\<close>,
  \<open>moveToEndOfLine\<close> without \<open>sticky\<close>, \<open>moveToBeginningOfBuffer\<close>,
  \<open>moveToEndOfBuffer\<close>, \<open>moveToPrevBlankLine\<close> and \<open>moveToNextBlankLine\<close>, on a cursor
  whose two leftover fields are non-negative, the returned \<open>leftoverVisibleColumns\<close> and
  \<open>selectionStartLeftoverVisibleColumns\<close> are non-negative, and when \<open>virtualSpace\<close> is
  false the returned \<open>leftoverVisibleColumns\<close> is 0 and the returned
  \<open>selectionStartLeftoverVisibleColumns\<close> is 0 when the selection is not extended and
  the cursor's own value when it is. \<open>moveToEndOfLine\<close> with \<open>sticky\<close> returns
  \<open>MAX_SAFE_SMALL_INTEGER - maxColumn\<close>. The vertical motions return what \<open>vertical\<close>
  computed, whatever \<open>virtualSpace\<close> is: the leftover of \<open>vertical\<close> is 0 when it
  cleared the column hint and otherwise the tracked visible column minus the visible
  column of the final position, a number that may be positive or negative; \<open>moveUp\<close>
  returns the leftover of its call of \<open>vertical\<close>, \<open>moveDown\<close> that of the attempt it
  returns (both also for the selection-start end unless the selection is extended), and
  \<open>translateUp\<close> and \<open>translateDown\<close> return for each end the leftover of the call for
  that end.
\<close>

theorem leftover_columns_of_motions:
  assumes "0 \<le> SingleCursorState.leftoverVisibleColumns cursor"
    and "0 \<le> selectionStartLeftoverVisibleColumns cursor"
  shows "leftoversKept config cursor inSel (moveLeft ext config model cursor inSel n)
   \<and> leftoversKept config cursor inSel (moveRight ext config model cursor inSel n)
   \<and> leftoversKept config cursor inSel (moveToBeginningOfLine config model cursor inSel)
   \<and> leftoversKept config cursor inSel (moveToEndOfLine config model cursor inSel False)
   \<and> leftoversKept config cursor inSel (moveToBeginningOfBuffer config model cursor inSel)
   \<and> leftoversKept config cursor inSel (moveToEndOfBuffer config model cursor inSel)
   \<and> leftoversKept config cursor inSel (moveToPrevBlankLine config model cursor inSel)
   \<and> leftoversKept config cursor inSel (moveToNextBlankLine config model cursor inSel)
   \<and> SingleCursorState.leftoverVisibleColumns (moveToEndOfLine config model cursor inSel True)
       = MAX_SAFE_SMALL_INTEGER - getLineMaxColumn model (lineNumber (position cursor))
   \<and> (CursorPosition.columnHint (vertical ext config model l0 c0 lo0 h0 newLine allow aff) \<noteq> None
        \<longrightarrow> CursorPosition.leftoverVisibleColumns
              (vertical ext config model l0 c0 lo0 h0 newLine allow aff)
            = (case h0 of Some h \<Rightarrow> h
               | None \<Rightarrow> visibleColumnFromColumn ext (getLineContent model l0) c0
                           (tabSize config) + lo0)
              - visibleColumnFromColumn ext
                  (getLineContent model
                     (lineNumber (vertical ext config model l0 c0 lo0 h0 newLine allow aff)))
                  (column (vertical ext config model l0 c0 lo0 h0 newLine allow aff))
                  (tabSize config))
   \<and> (CursorPosition.columnHint (vertical ext config model l0 c0 lo0 h0 newLine allow aff) = None
        \<longrightarrow> CursorPosition.leftoverVisibleColumns
              (vertical ext config model l0 c0 lo0 h0 newLine allow aff) = 0)
   \<and> (case moveUp_start config cursor inSel of
        (l, c, lo, h) \<Rightarrow>
          SingleCursorState.leftoverVisibleColumns (moveUp ext config model cursor inSel k)
            = CursorPosition.leftoverVisibleColumns
                (vertical ext config model l c lo h (l - k) True (Some LeftOfInjectedText))
          \<and> selectionStartLeftoverVisibleColumns (moveUp ext config model cursor inSel k)
            = (if inSel then selectionStartLeftoverVisibleColumns cursor
               else CursorPosition.leftoverVisibleColumns
                      (vertical ext config model l c lo h (l - k) True
                         (Some LeftOfInjectedText))))
   \<and> (case moveDown_start config cursor inSel of
        (l, c, lo, h) \<Rightarrow>
          (\<exists>i. 0 \<le> i \<and> i \<le> 10
            \<and> SingleCursorState.leftoverVisibleColumns (moveDown ext config model cursor inSel k)
                = CursorPosition.leftoverVisibleColumns
                    (vertical ext config model (l + i) c lo h (l + i + k) True
                       (Some RightOfInjectedText))
            \<and> selectionStartLeftoverVisibleColumns (moveDown ext config model cursor inSel k)
                = (if inSel then selectionStartLeftoverVisibleColumns cursor
                   else CursorPosition.leftoverVisibleColumns
                          (vertical ext config model (l + i) c lo h (l + i + k) True
                             (Some RightOfInjectedText)))))
   \<and> SingleCursorState.leftoverVisibleColumns (translateUp ext config model cursor)
       = CursorPosition.leftoverVisibleColumns
           (vertical ext config model (positionLineNumber (selection cursor))
              (positionColumn (selection cursor))
              (SingleCursorState.leftoverVisibleColumns cursor)
              (SingleCursorState.columnHint cursor)
              (positionLineNumber (selection cursor) - 1) False (Some LeftOfInjectedText))
   \<and> selectionStartLeftoverVisibleColumns (translateUp ext config model cursor)
       = CursorPosition.leftoverVisibleColumns
           (vertical ext config model (selectionStartLineNumber (selection cursor))
              (selectionStartColumn (selection cursor))
              (selectionStartLeftoverVisibleColumns cursor)
              (SingleCursorState.columnHint cursor)
              (selectionStartLineNumber (selection cursor) - 1) False
              (Some LeftOfInjectedText))
   \<and> SingleCursorState.leftoverVisibleColumns (translateDown ext config model cursor)
       = CursorPosition.leftoverVisibleColumns
           (vertical ext config model (positionLineNumber (selection cursor))
              (positionColumn (selection cursor))
              (SingleCursorState.leftoverVisibleColumns cursor)
              (SingleCursorState.columnHint cursor)
              (positionLineNumber (selection cursor) + 1) False (Some RightOfInjectedText))
   \<and> selectionStartLeftoverVisibleColumns (translateDown ext config model cursor)
       = CursorPosition.leftoverVisibleColumns
           (vertical ext config model (selectionStartLineNumber (selection cursor))
              (selectionStartColumn (selection cursor))
              (selectionStartLeftoverVisibleColumns cursor)
              (SingleCursorState.columnHint cursor)
              (selectionStartLineNumber (selection cursor) + 1) False
              (Some RightOfInjectedText))"
proof -
  have a1: "leftoversKept config cursor inSel (moveLeft ext config model cursor inSel n)"
    by (rule moveLeft_leftoversKept[OF assms])
  have a2: "leftoversKept config cursor inSel (moveRight ext config model cursor inSel n)"
    by (rule moveRight_leftoversKept[OF assms])
  have a3: "leftoversKept config cursor inSel (moveToBeginningOfLine config model cursor inSel)"
    unfolding moveToBeginningOfLine_def Let_def by (rule move_leftoversKept[OF assms(2)]) simp_all
  have a4: "leftoversKept config cursor inSel (moveToEndOfLine config model cursor inSel False)"
    unfolding moveToEndOfLine_def Let_def if_False by (rule move_leftoversKept[OF assms(2)]) simp_all
  have a5: "leftoversKept config cursor inSel (moveToBeginningOfBuffer config model cursor inSel)"
    unfolding moveToBeginningOfBuffer_def by (rule move_leftoversKept[OF assms(2)]) simp_all
  have a6: "leftoversKept config cursor inSel (moveToEndOfBuffer config model cursor inSel)"
    unfolding moveToEndOfBuffer_def Let_def by (rule move_leftoversKept[OF assms(2)]) simp_all
  have a7: "leftoversKept config cursor inSel (moveToPrevBlankLine config model cursor inSel)"
    unfolding moveToPrevBlankLine_def Let_def by (rule move_leftoversKept[OF assms(2)]) simp_all
  have a8: "leftoversKept config cursor inSel (moveToNextBlankLine config model cursor inSel)"
    unfolding moveToNextBlankLine_def Let_def by (rule move_leftoversKept[OF assms(2)]) simp_all
  have a9: "SingleCursorState.leftoverVisibleColumns (moveToEndOfLine config model cursor inSel True)
       = MAX_SAFE_SMALL_INTEGER - getLineMaxColumn model (lineNumber (position cursor))"
    by (simp add: moveToEndOfLine_def Let_def move_fields)
  note a10 = vertical_leftover
    [where ext = ext and config = config and model = model and ?l0.0 = l0 and ?c0.0 = c0
       and ?lo0.0 = lo0 and ?h0.0 = h0 and newLine = newLine and allow = allow and aff = aff]
  note a11 = vertical_leftover_cleared
    [where ext = ext and config = config and model = model and ?l0.0 = l0 and ?c0.0 = c0
       and ?lo0.0 = lo0 and ?h0.0 = h0 and newLine = newLine and allow = allow and aff = aff]
  note a12 = moveUp_leftovers
    [where config = config and cursor = cursor and inSel = inSel and ext = ext
       and model = model and k = k]
  note a13 = moveDown_leftovers
    [where config = config and cursor = cursor and inSel = inSel and ext = ext
       and model = model and k = k]
  note a14 = translate_leftovers
    [where ext = ext and config = config and model = model and cursor = cursor]
  from a1 a2 a3 a4 a5 a6 a7 a8 a9 a10 a11 a12 a13 a14 show ?thesis by blast
qed

lemma vertical_example:
  "vertical plainText (plainConfig False) (textModel [''abcdefgh'', ''ab'']) 1 9 0 None 2 allow
       (Some RightOfInjectedText)
     = \<lparr> lineNumber = 2, column = 3,
         CursorPosition.leftoverVisibleColumns = 6, CursorPosition.columnHint = Some 8 \<rparr>"
  by (simp add: vertical_def Let_def textModel_simps plainText_simps stickyConfig_simps
      plainConfig_columnFromVisibleColumn lineAt_def clipRange_def)

lemma vertical_example_cleared:
  "vertical plainText (plainConfig False) (textModel [''abcdefgh'', ''ab'']) 1 3 0 None 2 True
       (Some RightOfInjectedText)
     = \<lparr> lineNumber = 2, column = 3,
         CursorPosition.leftoverVisibleColumns = 0, CursorPosition.columnHint = None \<rparr>"
  by (simp add: vertical_def Let_def textModel_simps plainText_simps stickyConfig_simps
      plainConfig_columnFromVisibleColumn lineAt_def clipRange_def)

lemma moveDown_first_attempt:
  "moveDown_loop plainText (plainConfig False) (textModel [''abcdefgh'', ''ab'']) 1 9 0 None 1 0
     = (\<lparr> lineNumber = 2, column = 3,
          CursorPosition.leftoverVisibleColumns = 6, CursorPosition.columnHint = Some 8 \<rparr>, 0)"
  by (subst moveDown_loop.simps)
    (simp add: down_def vertical_def Let_def textModel_simps plainText_simps stickyConfig_simps
      plainConfig_columnFromVisibleColumn lineAt_def clipRange_def)

lemma moveDown_on_last_line:
  "moveDown_loop plainText (plainConfig False) (textModel [''ab'', ''cd'']) 2 1 0 None 1 0
     = (\<lparr> lineNumber = 2, column = 3,
          CursorPosition.leftoverVisibleColumns = - 2, CursorPosition.columnHint = Some 0 \<rparr>, 0)"
  by (subst moveDown_loop.simps)
    (simp add: down_def vertical_def Let_def textModel_simps plainText_simps stickyConfig_simps
      plainConfig_columnFromVisibleColumn lineAt_def clipRange_def)

lemma selection_cursorAt:
  "positionLineNumber (selection (cursorAt l c lo)) = l"
  "positionColumn (selection (cursorAt l c lo)) = c"
  "selectionStartLineNumber (selection (cursorAt l c lo)) = l"
  "selectionStartColumn (selection (cursorAt l c lo)) = c"
  by (simp_all add: selection_def cursorAt_def collapsedRange_def Range_isEmpty_def
      Selection_fromPositions_def getStartPosition_def isBeforeOrEqual_def)

text \<open>
  On \<open>["abcdefgh", "ab"]\<close> without virtual space: \<open>moveLeft\<close> and \<open>moveRight\<close> return
  leftover 0, the sticky end of line \<open>2^30 - 9\<close>; \<open>vertical\<close> from \<open>(1,9)\<close> to line 2
  returns 6, and from \<open>(1,3)\<close> it clears the hint and returns 0; \<open>moveDown\<close> and
  \<open>translateDown\<close> from \<open>(1,9)\<close> return 6.
\<close>

theorem leftover_columns_of_motions_witness:
  "0 \<le> SingleCursorState.leftoverVisibleColumns (cursorAt 1 9 0)
   \<and> 0 \<le> selectionStartLeftoverVisibleColumns (cursorAt 1 9 0)
   \<and> \<not> virtualSpace (plainConfig False)
   \<and> SingleCursorState.leftoverVisibleColumns
        (moveLeft plainText (plainConfig False) (textModel [''abcdefgh'', ''ab''])
           (cursorAt 1 9 0) False 1) = 0
   \<and> selectionStartLeftoverVisibleColumns
        (moveRight plainText (plainConfig False) (textModel [''abcdefgh'', ''ab''])
           (cursorAt 1 9 0) False 1) = 0
   \<and> SingleCursorState.leftoverVisibleColumns
        (moveToEndOfLine (plainConfig False) (textModel [''abcdefgh'', ''ab''])
           (cursorAt 1 9 0) False True) = 1073741815
   \<and> CursorPosition.leftoverVisibleColumns
        (vertical plainText (plainConfig False) (textModel [''abcdefgh'', ''ab'']) 1 9 0 None 2
           True (Some RightOfInjectedText)) = 6
   \<and> CursorPosition.leftoverVisibleColumns
        (vertical plainText (plainConfig False) (textModel [''abcdefgh'', ''ab'']) 1 3 0 None 2
           True (Some RightOfInjectedText)) = 0
   \<and> SingleCursorState.leftoverVisibleColumns
        (moveDown plainText (plainConfig False) (textModel [''abcdefgh'', ''ab''])
           (cursorAt 1 9 0) False 1) = 6
   \<and> SingleCursorState.leftoverVisibleColumns
        (translateDown plainText (plainConfig False) (textModel [''abcdefgh'', ''ab''])
           (cursorAt 1 9 0)) = 6
   \<and> selectionStartLeftoverVisibleColumns
        (translateDown plainText (plainConfig False) (textModel [''abcdefgh'', ''ab''])
           (cursorAt 1 9 0)) = 6"
proof -
  have md: "SingleCursorState.leftoverVisibleColumns
        (moveDown plainText (plainConfig False) (textModel [''abcdefgh'', ''ab''])
           (cursorAt 1 9 0) False 1) = 6"
    by (simp add: moveDown_def Let_def move_fields cursorAt_simps hasSelection_cursorAt
        moveDown_first_attempt)
  show ?thesis
    using leftover_columns_of_motions
        [where cursor = "cursorAt 1 9 0" and config = "plainConfig False" and ext = plainText
           and model = "textModel [''abcdefgh'', ''ab'']" and inSel = False and n = 1 and k = 1
           and ?l0.0 = 1 and ?c0.0 = 9 and ?lo0.0 = 0 and ?h0.0 = None and newLine = 2
           and allow = True and aff = "Some RightOfInjectedText"]
      leftover_columns_of_motions
        [where cursor = "cursorAt 1 9 0" and config = "plainConfig False" and ext = plainText
           and model = "textModel [''abcdefgh'', ''ab'']" and inSel = False and n = 1 and k = 1
           and ?l0.0 = 1 and ?c0.0 = 3 and ?lo0.0 = 0 and ?h0.0 = None and newLine = 2
           and allow = True and aff = "Some RightOfInjectedText"]
    by (simp add: cursorAt_simps selection_cursorAt stickyConfig_simps vertical_example
        vertical_example_cleared textModel_simps lineAt_def MAX_SAFE_SMALL_INTEGER_def md)
qed

text \<open>
  Without virtual space the leftover is neither always 0 nor always non-negative: the
  sticky end of line on \<open>["abc"]\<close> leaves \<open>2^30 - 4\<close>, \<open>moveDown\<close> from the end of
  \<open>"abcdefgh"\<close> onto \<open>"ab"\<close> leaves 6, the columns the shorter line could not take, and
  \<open>moveDown\<close> on \<open>["ab", "cd"]\<close> from \<open>(2,1)\<close>, which can only go to the end of the last
  line, leaves \<open>-2\<close> on both ends.
\<close>

theorem leftover_nonzero_without_virtual_space:
  "\<not> virtualSpace (plainConfig False)
   \<and> SingleCursorState.leftoverVisibleColumns
        (moveToEndOfLine (plainConfig False) (textModel [''abc'']) (cursorAt 1 1 0) False True)
       = 1073741820
   \<and> SingleCursorState.leftoverVisibleColumns
        (moveDown plainText (plainConfig False) (textModel [''abcdefgh'', ''ab''])
           (cursorAt 1 9 0) False 1)
       = 6
   \<and> SingleCursorState.leftoverVisibleColumns
        (moveDown plainText (plainConfig False) (textModel [''ab'', ''cd''])
           (cursorAt 2 1 0) False 1)
       = - 2
   \<and> selectionStartLeftoverVisibleColumns
        (moveDown plainText (plainConfig False) (textModel [''ab'', ''cd''])
           (cursorAt 2 1 0) False 1)
       = - 2"
  by (simp add: moveToEndOfLine_def moveDown_def Let_def move_fields cursorAt_simps
      hasSelection_cursorAt moveDown_first_attempt moveDown_on_last_line textModel_simps
      stickyConfig_simps lineAt_def MAX_SAFE_SMALL_INTEGER_def)

subsection \<open>Leftwards in virtual space\<close>

lemma injectedLine_simps:
  "getLineMinColumn injectedLine l = 1"
  "getLineMaxColumn injectedLine 1 = 4"
  "normalizePosition injectedLine \<lparr> lineNumber = 1, column = 4 \<rparr> LeftAffinity
     = \<lparr> lineNumber = 1, column = 3 \<rparr>"
  by (simp_all add: injectedLine_def textModel_def lineAt_def)

text \<open>
  C6, as the code has it. In \<open>moveLeft\<close> with virtual space enabled and no selection
  collapse, the overshoot is the column before clipping minus the clipped column (the
  column clipped into the line, before normalization): if it is at least one, the
  result keeps the normalized position and records the overshoot minus one as the new
  \<open>leftoverVisibleColumns\<close>; only when there is no overshoot does the operation fall
  through to a real single-character step from the normalized position, and when that
  position is at the minimum column of its line it is kept with leftover 0.
\<close>

theorem moveLeft_in_virtual_space:
  assumes "virtualSpace config" and "\<not> (hasSelection cursor True \<and> \<not> inSel)"
  shows
    "(let pos = Position_delta (virtualSpacePosition cursor) (- (n - 1));
          clippedPos = clipPositionColumn pos model;
          normalizedPos = normalizePosition model clippedPos LeftAffinity;
          excess = column pos - column clippedPos;
          result = moveLeft ext config model cursor inSel n
      in (excess \<ge> 1 \<longrightarrow>
            position result = normalizedPos
            \<and> SingleCursorState.leftoverVisibleColumns result = excess - 1)
         \<and> (excess \<le> 0
              \<and> column normalizedPos > getLineMinColumn model (lineNumber normalizedPos) \<longrightarrow>
            position result = left ext config model normalizedPos
            \<and> SingleCursorState.leftoverVisibleColumns result = 0)
         \<and> (excess \<le> 0
              \<and> column normalizedPos \<le> getLineMinColumn model (lineNumber normalizedPos) \<longrightarrow>
            position result = normalizedPos
            \<and> SingleCursorState.leftoverVisibleColumns result = 0))"
  using assms
  by (auto simp add: moveLeft_def moveLeftWithVirtualSpace_def Let_def move_fields max_def)

theorem moveLeft_in_virtual_space_witness:
  "virtualSpace (plainConfig True) \<and> \<not> hasSelection (cursorAt 1 4 3) True
   \<and> position (moveLeft plainText (plainConfig True) (textModel [''abc'']) (cursorAt 1 4 3) False 1)
       = \<lparr> lineNumber = 1, column = 4 \<rparr>
   \<and> SingleCursorState.leftoverVisibleColumns
        (moveLeft plainText (plainConfig True) (textModel [''abc'']) (cursorAt 1 4 3) False 1) = 2
   \<and> position (moveLeft plainText (plainConfig True) (textModel [''abc'']) (cursorAt 1 4 1) False 1)
       = \<lparr> lineNumber = 1, column = 4 \<rparr>
   \<and> SingleCursorState.leftoverVisibleColumns
        (moveLeft plainText (plainConfig True) (textModel [''abc'']) (cursorAt 1 4 1) False 1) = 0
   \<and> position (moveLeft plainText (plainConfig True) (textModel [''abc'']) (cursorAt 1 4 0) False 1)
       = \<lparr> lineNumber = 1, column = 3 \<rparr>
   \<and> position (moveLeft plainText (plainConfig True) (textModel [''abc'']) (cursorAt 1 1 0) False 1)
       = \<lparr> lineNumber = 1, column = 1 \<rparr>
   \<and> SingleCursorState.leftoverVisibleColumns
        (moveLeft plainText (plainConfig True) (textModel [''abc'']) (cursorAt 1 1 0) False 1) = 0"
  using moveLeft_in_virtual_space
      [where config = "plainConfig True" and cursor = "cursorAt 1 4 3" and inSel = False
         and model = "textModel [''abc'']" and ext = plainText and n = 1]
    moveLeft_in_virtual_space
      [where config = "plainConfig True" and cursor = "cursorAt 1 4 1" and inSel = False
         and model = "textModel [''abc'']" and ext = plainText and n = 1]
    moveLeft_in_virtual_space
      [where config = "plainConfig True" and cursor = "cursorAt 1 4 0" and inSel = False
         and model = "textModel [''abc'']" and ext = plainText and n = 1]
    moveLeft_in_virtual_space
      [where config = "plainConfig True" and cursor = "cursorAt 1 1 0" and inSel = False
         and model = "textModel [''abc'']" and ext = plainText and n = 1]
  by (simp add: Let_def cursorAt_simps hasSelection_cursorAt stickyConfig_simps
      virtualSpacePosition_def Position_delta_def clipPositionColumn_def clipRange_def
      textModel_simps plainText_simps lineAt_def left_def leftPosition_def)

text \<open>
  Measured against the normalized column the rule fails: on \<open>injectedLine\<close>, from
  column 4 with leftover 3, the column before clipping (7) exceeds the normalized
  column (3) by 4, the result keeps the normalized position \<open>(1,3)\<close>, and the leftover
  recorded is 2, not 3.
\<close>

theorem moveLeft_leftover_against_normalized_column_counterexample:
  "virtualSpace (plainConfig True) \<and> \<not> hasSelection (cursorAt 1 4 3) True
   \<and> column (virtualSpacePosition (cursorAt 1 4 3))
       - column (normalizePosition injectedLine
                   (clipPositionColumn (virtualSpacePosition (cursorAt 1 4 3)) injectedLine)
                   LeftAffinity) = 4
   \<and> position (moveLeft plainText (plainConfig True) injectedLine (cursorAt 1 4 3) False 1)
       = \<lparr> lineNumber = 1, column = 3 \<rparr>
   \<and> SingleCursorState.leftoverVisibleColumns
        (moveLeft plainText (plainConfig True) injectedLine (cursorAt 1 4 3) False 1) = 2"
  by (simp add: moveLeft_def moveLeftWithVirtualSpace_def Let_def move_fields cursorAt_simps
      hasSelection_cursorAt stickyConfig_simps virtualSpacePosition_def Position_delta_def
      clipPositionColumn_def clipRange_def injectedLine_simps)

subsection \<open>Vertical motion at the buffer edges\<close>

text \<open>
  Without virtual space the edge flag of \<open>vertical\<close> is computed after
  \<open>lineNumber = newLineNumber\<close>: \<open>newLineNumber < lineNumber\<close> is then false, the flag is
  \<open>wasOnLastPosition\<close> of the target line, and the hint is cleared exactly when the
  target line is the last line and the old column equals its maximum column.
\<close>

lemma vertical_columnHint_without_virtual_space:
  "\<not> virtualSpace config \<Longrightarrow>
   CursorPosition.columnHint (vertical ext config model l0 c0 lo0 h0 newLine allow aff)
     = (if newLine = getLineCount model \<and> c0 = getLineMaxColumn model newLine then None
        else Some (case h0 of Some h \<Rightarrow> h
                   | None \<Rightarrow> visibleColumnFromColumn ext (getLineContent model l0) c0
                               (tabSize config) + lo0))"
  by (auto simp add: vertical_def Let_def split: option.splits prod.splits)

text \<open>The target line is clamped and the column forced as the flag \<open>allow\<close> says.\<close>

lemma vertical_clamps_target_line:
  "\<not> virtualSpace config \<Longrightarrow> newLine < 1 \<Longrightarrow>
   lineNumber (vertical ext config model l0 c0 lo0 h0 newLine allow None) = 1
   \<and> column (vertical ext config model l0 c0 lo0 h0 newLine allow None)
       = (if allow then getLineMinColumn model 1 else min (getLineMaxColumn model 1) c0)"
  "\<not> virtualSpace config \<Longrightarrow> 1 \<le> newLine \<Longrightarrow> newLine > getLineCount model \<Longrightarrow>
   lineNumber (vertical ext config model l0 c0 lo0 h0 newLine allow None) = getLineCount model
   \<and> column (vertical ext config model l0 c0 lo0 h0 newLine allow None)
       = (if allow then getLineMaxColumn model (getLineCount model)
          else min (getLineMaxColumn model (getLineCount model)) c0)"
  by (auto simp add: vertical_def Let_def split: option.splits prod.splits)

text \<open>
  C7. In vertical motion without virtual space, a motion that started at the absolute
  buffer start (moving up) or at the absolute buffer end (moving down) should return a
  null column hint and leftover 0. The code does not: on the buffer \<open>["abc"]\<close>, moving
  up from \<open>(1,1)\<close> returns the hint 0, and moving down from \<open>(1,4)\<close> with the leftover
  \<open>2^30 - 4\<close> of a sticky end of line returns that leftover and the hint \<open>2^30 - 1\<close>.
\<close>

theorem vertical_keeps_hint_at_buffer_edges:
  "vertical plainText (plainConfig False) (textModel [''abc'']) 1 1 0 None 0 True
       (Some LeftOfInjectedText)
     = \<lparr> lineNumber = 1, column = 1,
         CursorPosition.leftoverVisibleColumns = 0, CursorPosition.columnHint = Some 0 \<rparr>
   \<and> vertical plainText (plainConfig False) (textModel [''abc'']) 1 4 1073741820 None 2 True
       (Some RightOfInjectedText)
     = \<lparr> lineNumber = 1, column = 4,
         CursorPosition.leftoverVisibleColumns = 1073741820,
         CursorPosition.columnHint = Some 1073741823 \<rparr>"
  by (simp add: vertical_def Let_def textModel_simps plainText_simps stickyConfig_simps
      plainConfig_columnFromVisibleColumn lineAt_def clipRange_def)

subsection \<open>The column hint across motions\<close>

lemma hintedCursor_simps:
  "position hintedCursor = \<lparr> lineNumber = 1, column = 3 \<rparr>"
  "SingleCursorState.leftoverVisibleColumns hintedCursor = 0"
  "SingleCursorState.columnHint hintedCursor = Some 8"
  "\<not> hasSelection hintedCursor vs"
  by (simp_all add: hintedCursor_def cursorAt_def hasSelection_def selection_def
      collapsedRange_def Range_isEmpty_def Selection_fromPositions_def getStartPosition_def
      isBeforeOrEqual_def)

lemma moveDown_with_hint:
  "moveDown_loop plainText (plainConfig False) (textModel [''ab'', ''abcdefghij'']) 1 3 0
       (Some 8) 1 0
     = (\<lparr> lineNumber = 2, column = 9,
          CursorPosition.leftoverVisibleColumns = 0, CursorPosition.columnHint = Some 8 \<rparr>, 0)"
  by (subst moveDown_loop.simps)
    (simp add: down_def vertical_def Let_def textModel_simps plainText_simps stickyConfig_simps
      plainConfig_columnFromVisibleColumn lineAt_def clipRange_def)

text \<open>
  The hint 8 survives \<open>moveDown\<close> onto a longer line and is gone after \<open>moveRight\<close> or
  \<open>moveToEndOfLine\<close>.
\<close>

theorem horizontal_and_boundary_motions_clear_columnHint_witness:
  "SingleCursorState.columnHint hintedCursor = Some 8
   \<and> SingleCursorState.columnHint
        (moveDown plainText (plainConfig False) (textModel [''ab'', ''abcdefghij''])
           hintedCursor False 1) = Some 8
   \<and> SingleCursorState.columnHint
        (moveRight plainText (plainConfig False) (textModel [''ab'', ''abcdefghij''])
           hintedCursor False 1) = None
   \<and> SingleCursorState.columnHint
        (moveToEndOfLine (plainConfig False) (textModel [''ab'', ''abcdefghij''])
           hintedCursor False True) = None"
  using horizontal_and_boundary_motions_clear_columnHint
      [where ext = plainText and config = "plainConfig False"
         and model = "textModel [''ab'', ''abcdefghij'']" and cursor = hintedCursor
         and inSel = False and n = 1 and sticky = True]
  by (simp add: moveDown_def Let_def hintedCursor_simps stickyConfig_simps moveDown_with_hint
      move_fields)

end
